theory Spec2Isabelle
  imports Complex_Main
begin

section \<open>Data model\<close>

text \<open>
  Row identifiers are UUIDs; only their equality matters, so they are natural numbers.
  Timestamps are natural numbers (milliseconds). Prices and offers are the numbers the
  client sends; coordinates are the numbers PostGIS stores and reads back. Both are
  exact rationals. The columns \<^verbatim>\<open>initial_offer\<close> and \<^verbatim>\<open>counter_offer\<close> of the
  negotiations are \<^verbatim>\<open>NUMERIC(10, 2)\<close>: an amount written to them is rounded to two
  decimals, or refused when it is too large (\<open>numeric_10_2\<close> below). The SQL files do not
  declare the table of the listings, and the functions on listings return its numbers as
  they are stored.
\<close>

type_synonym uuid = nat
type_synonym timestamp = nat
type_synonym amount = rat
type_synonym coord = rat

subsection \<open>PostGIS points\<close>

text \<open>
  \<^verbatim>\<open>ST_MakePoint(x, y)\<close> builds the point whose \<^verbatim>\<open>ST_X\<close> is \<open>x\<close> and whose
  \<^verbatim>\<open>ST_Y\<close> is \<open>y\<close>. The SRID set by \<^verbatim>\<open>ST_SetSRID\<close> and the casts between
  geography and geometry leave both coordinates as they are.
\<close>

datatype point = ST_MakePoint (ST_X: coord) (ST_Y: coord)

definition ST_SetSRID :: "point \<Rightarrow> nat \<Rightarrow> point" where
  "ST_SetSRID p srid = p"

subsection \<open>Tables\<close>

text \<open>Table \<^verbatim>\<open>scrap_listings\<close>, with the columns of \<^verbatim>\<open>database.types.ts\<close>
  and the two columns added by \<^verbatim>\<open>migration.sql\<close>.\<close>

record listing =
  l_id :: uuid
  l_seller_id :: uuid
  l_material_type_id :: uuid
  l_title :: string
  l_description :: "string option"
  l_quantity :: amount
  l_unit :: string
  l_listed_price :: amount
  l_image_url :: "string option"
  l_classification :: "string option"
  l_confidence :: "amount option"
  l_weight_estimation :: "amount option"
  l_geolocation :: "point option"
  l_address :: "string option"
  l_status :: string
  l_created_at :: timestamp
  l_updated_at :: timestamp
  l_is_donation :: "bool option"
  l_ngo_id :: "uuid option"

record material_type =
  mt_id :: uuid
  mt_name :: string
  mt_category :: string
  mt_description :: "string option"

record profile =
  p_id :: uuid
  p_full_name :: "string option"
  p_avatar_url :: "string option"

record ngo =
  n_id :: uuid
  n_name :: string
  n_description :: "string option"

section \<open>Stored functions on listings\<close>

subsection \<open>\<^verbatim>\<open>update_geolocation\<close>\<close>

text \<open>
  \<^verbatim>\<open>UPDATE scrap_listings SET geolocation = ST_SetSRID(ST_MakePoint(lng, lat), 4326)
  WHERE id = listing_id; RETURN FOUND;\<close>
  The function is how a (latitude, longitude) pair becomes a stored point.
\<close>

definition update_geolocation ::
  "uuid \<Rightarrow> coord \<Rightarrow> coord \<Rightarrow> listing list \<Rightarrow> bool \<times> listing list" where
  "update_geolocation listing_id lat lng ls =
     (list_ex (\<lambda>l. l_id l = listing_id) ls,
      map (\<lambda>l. if l_id l = listing_id
               then l\<lparr>l_geolocation := Some (ST_SetSRID (ST_MakePoint lng lat) 4326)\<rparr>
               else l) ls)"

subsection \<open>\<^verbatim>\<open>get_listings_with_coordinates\<close>\<close>

record material_type_json =
  mtj_id :: uuid
  mtj_name :: string
  mtj_category :: string

record listing_coordinates =
  lc_id :: uuid
  lc_title :: string
  lc_description :: "string option"
  lc_material_type_id :: uuid
  lc_quantity :: amount
  lc_unit :: string
  lc_listed_price :: amount
  lc_address :: "string option"
  lc_latitude :: "coord option"
  lc_longitude :: "coord option"
  lc_status :: string
  lc_created_at :: timestamp
  lc_seller_id :: uuid
  lc_material_type :: "material_type_json option"

text \<open>The scalar subquery on \<^verbatim>\<open>material_types\<close>: the row with the listing's
  material type id, as a JSON object, or NULL.\<close>

definition material_type_of :: "material_type list \<Rightarrow> uuid \<Rightarrow> material_type_json option" where
  "material_type_of mts mid =
     map_option (\<lambda>mt. \<lparr>mtj_id = mt_id mt, mtj_name = mt_name mt, mtj_category = mt_category mt\<rparr>)
       (find (\<lambda>mt. mt_id mt = mid) mts)"

text \<open>
  One result row. The source computes
  \<^verbatim>\<open>CASE WHEN l.geolocation IS NOT NULL AND ST_X(l.geolocation::geometry) IS NOT NULL
  THEN ST_X(l.geolocation::geometry) ELSE NULL END AS latitude\<close>
  and the same with \<^verbatim>\<open>ST_Y\<close> for \<^verbatim>\<open>longitude\<close>.
\<close>

definition listing_coordinates_row :: "material_type list \<Rightarrow> listing \<Rightarrow> listing_coordinates" where
  "listing_coordinates_row mts l =
     \<lparr>lc_id = l_id l,
      lc_title = l_title l,
      lc_description = l_description l,
      lc_material_type_id = l_material_type_id l,
      lc_quantity = l_quantity l,
      lc_unit = l_unit l,
      lc_listed_price = l_listed_price l,
      lc_address = l_address l,
      lc_latitude = (case l_geolocation l of None \<Rightarrow> None | Some g \<Rightarrow> Some (ST_X g)),
      lc_longitude = (case l_geolocation l of None \<Rightarrow> None | Some g \<Rightarrow> Some (ST_Y g)),
      lc_status = l_status l,
      lc_created_at = l_created_at l,
      lc_seller_id = l_seller_id l,
      lc_material_type = material_type_of mts (l_material_type_id l)\<rparr>"

definition get_listings_with_coordinates ::
  "material_type list \<Rightarrow> listing list \<Rightarrow> listing_coordinates list" where
  "get_listings_with_coordinates mts ls =
     map (listing_coordinates_row mts) (filter (\<lambda>l. l_status l \<noteq> ''deleted'') ls)"

subsection \<open>\<^verbatim>\<open>get_listing_coordinates\<close>\<close>

record profile_json =
  pj_id :: uuid
  pj_full_name :: "string option"
  pj_avatar_url :: "string option"

record ngo_json =
  nj_id :: uuid
  nj_name :: string
  nj_description :: "string option"

record material_type_full_json =
  mtf_id :: uuid
  mtf_name :: string
  mtf_category :: string
  mtf_description :: "string option"

text \<open>The GeoJSON-like object \<^verbatim>\<open>{type: 'Point', coordinates: [ST_X, ST_Y]}\<close>.\<close>

record geolocation_json =
  gj_type :: string
  gj_coordinates :: "coord list"

record listing_with_coordinates =
  lw_id :: uuid
  lw_title :: string
  lw_description :: "string option"
  lw_listed_price :: amount
  lw_status :: string
  lw_created_at :: timestamp
  lw_seller_id :: uuid
  lw_material_type_id :: uuid
  lw_latitude :: "coord option"
  lw_longitude :: "coord option"
  lw_quantity :: amount
  lw_unit :: string
  lw_image_url :: "string option"
  lw_address :: "string option"
  lw_classification :: "string option"
  lw_confidence :: "amount option"
  lw_weight_estimation :: "amount option"
  lw_material_type :: "material_type_full_json option"
  lw_profiles :: "profile_json option"
  lw_geolocation :: "geolocation_json option"
  lw_is_donation :: bool
  lw_ngo_id :: "uuid option"
  lw_ngo :: "ngo_json option"

definition listing_with_coordinates_row ::
  "material_type list \<Rightarrow> profile list \<Rightarrow> ngo list \<Rightarrow> listing \<Rightarrow> listing_with_coordinates" where
  "listing_with_coordinates_row mts ps ns l =
     \<lparr>lw_id = l_id l,
      lw_title = l_title l,
      lw_description = l_description l,
      lw_listed_price = l_listed_price l,
      lw_status = l_status l,
      lw_created_at = l_created_at l,
      lw_seller_id = l_seller_id l,
      lw_material_type_id = l_material_type_id l,
      lw_latitude = (case l_geolocation l of None \<Rightarrow> None | Some g \<Rightarrow> Some (ST_Y g)),
      lw_longitude = (case l_geolocation l of None \<Rightarrow> None | Some g \<Rightarrow> Some (ST_X g)),
      lw_quantity = l_quantity l,
      lw_unit = l_unit l,
      lw_image_url = l_image_url l,
      lw_address = l_address l,
      lw_classification = l_classification l,
      lw_confidence = l_confidence l,
      lw_weight_estimation = l_weight_estimation l,
      lw_material_type =
        map_option (\<lambda>mt. \<lparr>mtf_id = mt_id mt, mtf_name = mt_name mt,
                            mtf_category = mt_category mt, mtf_description = mt_description mt\<rparr>)
          (find (\<lambda>mt. mt_id mt = l_material_type_id l) mts),
      lw_profiles =
        map_option (\<lambda>p. \<lparr>pj_id = p_id p, pj_full_name = p_full_name p,
                           pj_avatar_url = p_avatar_url p\<rparr>)
          (find (\<lambda>p. p_id p = l_seller_id l) ps),
      lw_geolocation =
        (case l_geolocation l of None \<Rightarrow> None
         | Some g \<Rightarrow> Some \<lparr>gj_type = ''Point'', gj_coordinates = [ST_X g, ST_Y g]\<rparr>),
      lw_is_donation = (case l_is_donation l of None \<Rightarrow> False | Some b \<Rightarrow> b),
      lw_ngo_id = l_ngo_id l,
      lw_ngo =
        (case l_ngo_id l of None \<Rightarrow> None
         | Some i \<Rightarrow> map_option (\<lambda>n. \<lparr>nj_id = n_id n, nj_name = n_name n,
                                          nj_description = n_description n\<rparr>)
                      (find (\<lambda>n. n_id n = i) ns))\<rparr>"

text \<open>\<^verbatim>\<open>SELECT ... INTO result ... WHERE l.id = listing_id; RETURN result\<close>: the object
  built from the listing with that id, NULL when there is none. No condition on the
  status.\<close>

definition get_listing_coordinates ::
  "material_type list \<Rightarrow> profile list \<Rightarrow> ngo list \<Rightarrow> listing list \<Rightarrow> uuid
     \<Rightarrow> listing_with_coordinates option" where
  "get_listing_coordinates mts ps ns ls listing_id =
     map_option (listing_with_coordinates_row mts ps ns) (find (\<lambda>l. l_id l = listing_id) ls)"

subsection \<open>\<^verbatim>\<open>update_test_geolocation\<close> of \<^verbatim>\<open>fix_geolocation.sql\<close>\<close>

text \<open>Decimal digits of a number, as \<^verbatim>\<open>||\<close> prints an integer.\<close>

definition digit_char :: "nat \<Rightarrow> char" where
  "digit_char d = ''0123456789'' ! d"

function string_of_nat :: "nat \<Rightarrow> string" where
  "string_of_nat n =
     (if n < 10 then [digit_char n]
      else string_of_nat (n div 10) @ [digit_char (n mod 10)])"
  by pat_completeness auto
termination
  by (relation "measure id") auto

declare string_of_nat.simps [simp del]

definition default_location :: point where
  "default_location = ST_SetSRID (ST_MakePoint 80.2707 13.0827) 4326"

definition needs_default_location :: "listing \<Rightarrow> bool" where
  "needs_default_location l = (l_geolocation l = None \<and> l_status l \<noteq> ''deleted'')"

text \<open>
  \<^verbatim>\<open>UPDATE scrap_listings SET geolocation = ST_SetSRID(ST_MakePoint(80.2707, 13.0827), 4326)
  WHERE geolocation IS NULL AND status != 'deleted';
  GET DIAGNOSTICS count_updated = ROW_COUNT;
  RETURN 'Updated ' || count_updated || ' listings with default location';\<close>
  The result is the message and the table after the update.
\<close>

definition update_test_geolocation :: "listing list \<Rightarrow> string \<times> listing list" where
  "update_test_geolocation ls =
     (let count_updated = length (filter needs_default_location ls)
      in (''Updated '' @ string_of_nat count_updated @ '' listings with default location'',
          map (\<lambda>l. if needs_default_location l
                   then l\<lparr>l_geolocation := Some default_location\<rparr> else l) ls))"

section \<open>Example rows\<close>

definition example_listing :: "uuid \<Rightarrow> uuid \<Rightarrow> string \<Rightarrow> point option \<Rightarrow> listing" where
  "example_listing i s st g =
     \<lparr>l_id = i, l_seller_id = s, l_material_type_id = 1, l_title = ''Copper wire'',
      l_description = None, l_quantity = 5, l_unit = ''kg'', l_listed_price = 100,
      l_image_url = None, l_classification = None, l_confidence = None,
      l_weight_estimation = None, l_geolocation = g, l_address = None, l_status = st,
      l_created_at = 0, l_updated_at = 0, l_is_donation = None, l_ngo_id = None\<rparr>"


section \<open>Geolocation: the default location and the extracted coordinates\<close>

lemma update_test_geolocation_length:
  "length (snd (update_test_geolocation ls)) = length ls"
  by (simp add: update_test_geolocation_def Let_def)

lemma update_test_geolocation_nth:
  "i < length ls \<Longrightarrow>
   snd (update_test_geolocation ls) ! i =
     (if needs_default_location (ls ! i)
      then (ls ! i)\<lparr>l_geolocation := Some default_location\<rparr> else ls ! i)"
  by (simp add: update_test_geolocation_def Let_def)

lemma default_location_coordinates:
  "ST_X default_location = 80.2707 \<and> ST_Y default_location = 13.0827"
  by (simp add: default_location_def ST_SetSRID_def)

text \<open>
  Claim C9. \<^verbatim>\<open>update_test_geolocation\<close> keeps every row in its place. A row whose
  geolocation is NULL and whose status is not \<^verbatim>\<open>'deleted'\<close> becomes the same row
  with the geolocation set to the point of longitude 80.2707 (\<^verbatim>\<open>ST_X\<close>) and latitude
  13.0827 (\<^verbatim>\<open>ST_Y\<close>), every other column unchanged; every other row is unchanged.
  The returned message is \<^verbatim>\<open>'Updated '\<close>, the number of rows updated in decimal,
  \<^verbatim>\<open>' listings with default location'\<close>.
\<close>

theorem update_test_geolocation_frame:
  assumes "update_test_geolocation ls = (msg, ls')"
  shows "length ls' = length ls
    \<and> (\<forall>i < length ls.
          (l_geolocation (ls ! i) = None \<and> l_status (ls ! i) \<noteq> ''deleted''
             \<longrightarrow> ls' ! i = (ls ! i)\<lparr>l_geolocation := Some (ST_MakePoint 80.2707 13.0827)\<rparr>)
        \<and> (\<not> (l_geolocation (ls ! i) = None \<and> l_status (ls ! i) \<noteq> ''deleted'')
             \<longrightarrow> ls' ! i = ls ! i))
    \<and> msg = ''Updated ''
          @ string_of_nat (length (filter (\<lambda>l. l_geolocation l = None \<and> l_status l \<noteq> ''deleted'') ls))
          @ '' listings with default location''"
proof -
  have ls': "ls' = snd (update_test_geolocation ls)"
    using assms by simp
  have msg: "msg = fst (update_test_geolocation ls)"
    using assms by simp
  have len: "length ls' = length ls"
    unfolding ls' by (rule update_test_geolocation_length)
  have rows: "\<forall>i < length ls.
          (l_geolocation (ls ! i) = None \<and> l_status (ls ! i) \<noteq> ''deleted''
             \<longrightarrow> ls' ! i = (ls ! i)\<lparr>l_geolocation := Some (ST_MakePoint 80.2707 13.0827)\<rparr>)
        \<and> (\<not> (l_geolocation (ls ! i) = None \<and> l_status (ls ! i) \<noteq> ''deleted'')
             \<longrightarrow> ls' ! i = ls ! i)"
    unfolding ls'
    by (simp add: update_test_geolocation_nth needs_default_location_def
        default_location_def ST_SetSRID_def)
  have m: "msg = ''Updated ''
          @ string_of_nat (length (filter (\<lambda>l. l_geolocation l = None \<and> l_status l \<noteq> ''deleted'') ls))
          @ '' listings with default location''"
    unfolding msg
    by (simp add: update_test_geolocation_def Let_def needs_default_location_def [abs_def])
  from len rows m show ?thesis by blast
qed

definition example_listings :: "listing list" where
  "example_listings =
     [example_listing 1 7 ''active'' None,
      example_listing 2 7 ''deleted'' None,
      example_listing 3 8 ''sold'' (Some (ST_MakePoint 77 28))]"

definition example_listings_updated :: "listing list" where
  "example_listings_updated =
     [example_listing 1 7 ''active'' (Some (ST_MakePoint 80.2707 13.0827)),
      example_listing 2 7 ''deleted'' None,
      example_listing 3 8 ''sold'' (Some (ST_MakePoint 77 28))]"

lemma update_test_geolocation_example:
  "update_test_geolocation example_listings =
     (''Updated 1 listings with default location'', example_listings_updated)"
  by (simp add: update_test_geolocation_def example_listings_def example_listing_def
      example_listings_updated_def needs_default_location_def default_location_def
      ST_SetSRID_def Let_def string_of_nat.simps digit_char_def)

theorem update_test_geolocation_frame_witness:
  "update_test_geolocation example_listings =
     (''Updated 1 listings with default location'', example_listings_updated)
   \<and> length example_listings_updated = length example_listings
   \<and> example_listings_updated ! 0 =
       (example_listings ! 0)\<lparr>l_geolocation := Some (ST_MakePoint 80.2707 13.0827)\<rparr>
   \<and> example_listings_updated ! 1 = example_listings ! 1
   \<and> example_listings_updated ! 2 = example_listings ! 2"
proof -
  note frame = update_test_geolocation_frame [OF update_test_geolocation_example]
  have len: "0 < length example_listings" "1 < length example_listings"
    "2 < length example_listings"
    by (simp_all add: example_listings_def)
  have active: "l_geolocation (example_listings ! 0) = None
      \<and> l_status (example_listings ! 0) \<noteq> ''deleted''"
    by (simp add: example_listings_def example_listing_def)
  have deleted: "\<not> (l_geolocation (example_listings ! 1) = None
      \<and> l_status (example_listings ! 1) \<noteq> ''deleted'')"
    by (simp add: example_listings_def example_listing_def)
  have located: "\<not> (l_geolocation (example_listings ! 2) = None
      \<and> l_status (example_listings ! 2) \<noteq> ''deleted'')"
    by (simp add: example_listings_def example_listing_def)
  from frame len(1) active have r0: "example_listings_updated ! 0 =
       (example_listings ! 0)\<lparr>l_geolocation := Some (ST_MakePoint 80.2707 13.0827)\<rparr>"
    by blast
  from frame len(2) deleted have r1: "example_listings_updated ! 1 = example_listings ! 1"
    by blast
  from frame len(3) located have r2: "example_listings_updated ! 2 = example_listings ! 2"
    by blast
  from frame have l: "length example_listings_updated = length example_listings"
    by blast
  from update_test_geolocation_example l r0 r1 r2 show ?thesis
    by blast
qed


text \<open>A point stored from a (latitude, longitude) pair has the longitude as
  \<^verbatim>\<open>ST_X\<close> and the latitude as \<^verbatim>\<open>ST_Y\<close>.\<close>

lemma update_geolocation_stores:
  "l_id l = i \<Longrightarrow> l \<in> set ls \<Longrightarrow>
   l\<lparr>l_geolocation := Some (ST_MakePoint lng lat)\<rparr> \<in> set (snd (update_geolocation i lat lng ls))"
  by (force simp add: update_geolocation_def ST_SetSRID_def)

text \<open>\<^verbatim>\<open>get_listing_coordinates\<close> gives the pair back.\<close>

lemma get_listing_coordinates_roundtrip:
  "lw_latitude (listing_with_coordinates_row mts ps ns
      (l\<lparr>l_geolocation := Some (ST_MakePoint lng lat)\<rparr>)) = Some lat
   \<and> lw_longitude (listing_with_coordinates_row mts ps ns
      (l\<lparr>l_geolocation := Some (ST_MakePoint lng lat)\<rparr>)) = Some lng"
  by (simp add: listing_with_coordinates_row_def)

text \<open>\<^verbatim>\<open>get_listings_with_coordinates\<close> gives the two coordinates exchanged.\<close>

lemma get_listings_with_coordinates_exchanged:
  "lc_latitude (listing_coordinates_row mts
      (l\<lparr>l_geolocation := Some (ST_MakePoint lng lat)\<rparr>)) = Some lng
   \<and> lc_longitude (listing_coordinates_row mts
      (l\<lparr>l_geolocation := Some (ST_MakePoint lng lat)\<rparr>)) = Some lat"
  by (simp add: listing_coordinates_row_def)

text \<open>
  Claim C3, at a concrete listing. The listing 1 gets the location of latitude 13.0827 and
  longitude 80.2707 through \<^verbatim>\<open>update_geolocation\<close>.
  \<^verbatim>\<open>get_listing_coordinates\<close> returns latitude 13.0827 and longitude 80.2707;
  \<^verbatim>\<open>get_listings_with_coordinates\<close> returns latitude 80.2707 and longitude 13.0827.
  The claim asks both functions for the stored pair.
\<close>

theorem get_listings_with_coordinates_latitude_is_ST_X:
  "map (\<lambda>r. (lc_latitude r, lc_longitude r))
     (get_listings_with_coordinates []
        (snd (update_geolocation 1 13.0827 80.2707 [example_listing 1 7 ''active'' None])))
     = [(Some 80.2707, Some 13.0827)]
   \<and> map_option (\<lambda>r. (lw_latitude r, lw_longitude r))
       (get_listing_coordinates [] [] []
          (snd (update_geolocation 1 13.0827 80.2707 [example_listing 1 7 ''active'' None])) 1)
     = Some (Some 13.0827, Some 80.2707)"
  by (simp add: get_listings_with_coordinates_def get_listing_coordinates_def
      update_geolocation_def example_listing_def listing_coordinates_row_def
      listing_with_coordinates_row_def ST_SetSRID_def)

section \<open>Client: responses and notifications\<close>

text \<open>An error of the database client, with its code and message; the answer
  \<^verbatim>\<open>{ data, error }\<close> of a request; a toast notification.\<close>

record pg_error =
  code :: string
  message :: string

datatype 'a response = Response (data: "'a option") (error: "pg_error option")

record toast =
  title :: string
  description :: string
  destructive :: bool

text \<open>\<^verbatim>\<open>error.message || fallback\<close>: the empty message is falsy.\<close>

definition message_or :: "pg_error \<Rightarrow> string \<Rightarrow> string" where
  "message_or e fallback = (if message e = [] then fallback else message e)"

section \<open>Browsing listings\<close>

type_synonym listing_row = "listing \<times> material_type_json option"

text \<open>
  What the browse page asks for:
  \<^verbatim>\<open>from('scrap_listings').select('*, material_type:material_type_id (id, name, category)')
  .order('created_at', { ascending: false })\<close>.
  The line \<^verbatim>\<open>.eq('status', 'active')\<close> is commented out in the source
  (``Temporarily remove status filter to check if that's the issue''), and no row-level
  policy on \<^verbatim>\<open>scrap_listings\<close> is defined, so every row is returned.
\<close>

definition select_listings :: "material_type list \<Rightarrow> listing list \<Rightarrow> listing_row list" where
  "select_listings mts ls =
     map (\<lambda>l. (l, material_type_of mts (l_material_type_id l))) (rev (sort_key l_created_at ls))"

record listings_page =
  listings :: "listing_row list"
  filteredListings :: "listing_row list"
  materialTypes :: "material_type list"
  categories :: "string list"
  loading :: bool
  page_error :: "string option"
  showWalletDialog :: bool
  selectedListingId :: "uuid option"
  page_toasts :: "toast list"

text \<open>\<^verbatim>\<open>Array.from(new Set(xs))\<close>: the first occurrence of each element, in order.\<close>

definition unique :: "'a list \<Rightarrow> 'a list" where
  "unique xs = rev (remdups (rev xs))"

definition fetchData_failed :: "pg_error \<Rightarrow> listings_page \<Rightarrow> listings_page" where
  "fetchData_failed e st =
     st\<lparr>page_error := Some (message_or e ''Failed to load listings''),
        page_toasts := page_toasts st @
          [\<lparr>title = ''Error'', description = ''Failed to load listings. Please try again.'',
            destructive = True\<rparr>],
        loading := False\<rparr>"

text \<open>
  \<^verbatim>\<open>fetchData\<close> of the browse page, over the answers of its four requests: the material
  types, the listings, the ten-row check made when no listing came back, and the second
  listing request made when the check found rows.
\<close>

definition fetchData ::
  "material_type list response \<Rightarrow> listing_row list response \<Rightarrow> listing list response
     \<Rightarrow> listing_row list response \<Rightarrow> listings_page \<Rightarrow> listings_page" where
  "fetchData typeResp listResp checkResp allResp st0 =
     (let st1 = st0\<lparr>loading := True, page_error := None\<rparr> in
      case error typeResp of
        Some typeError \<Rightarrow> fetchData_failed typeError st1
      | None \<Rightarrow>
          let typeData = (case data typeResp of None \<Rightarrow> [] | Some ts \<Rightarrow> ts);
              st2 = st1\<lparr>materialTypes := typeData,
                        categories := filter (\<lambda>c. c \<noteq> []) (unique (map mt_category typeData))\<rparr>
          in
          (case error listResp of
             Some err \<Rightarrow> fetchData_failed err st2
           | None \<Rightarrow>
               let rows = (case data listResp of None \<Rightarrow> [] | Some d \<Rightarrow> d);
                   shown =
                     (if rows = [] then
                        (case data checkResp of
                           None \<Rightarrow> rows
                         | Some checkData \<Rightarrow>
                             if checkData \<noteq> [] then
                               (case (error allResp, data allResp) of
                                  (None, Some allData) \<Rightarrow> allData
                                | _ \<Rightarrow> rows)
                             else rows)
                      else rows)
               in st2\<lparr>listings := shown, filteredListings := shown, loading := False\<rparr>))"

definition empty_page :: listings_page where
  "empty_page = \<lparr>listings = [], filteredListings = [], materialTypes = [], categories = [],
     loading = True, page_error = None, showWalletDialog = False,
     selectedListingId = None, page_toasts = []\<rparr>"

text \<open>\<^verbatim>\<open>get_listings_with_coordinates\<close> returns the listings that are not deleted,
  and only those.\<close>

lemma get_listings_with_coordinates_ids:
  "map lc_id (get_listings_with_coordinates mts ls)
     = map l_id (filter (\<lambda>l. l_status l \<noteq> ''deleted'') ls)"
  by (simp add: get_listings_with_coordinates_def listing_coordinates_row_def comp_def)

text \<open>
  Claim C8, at a concrete table. Of the three example listings the second is deleted.
  \<^verbatim>\<open>get_listings_with_coordinates\<close> leaves it out, but the browse page's
  \<^verbatim>\<open>fetchData\<close> puts it in the page's listings together with the two others,
  where the claim says a deleted listing is in the result of no retrieval.
\<close>

theorem fetchData_returns_deleted_listing:
  "map (\<lambda>r. (l_id (fst r), l_status (fst r)))
     (listings (fetchData (Response (Some []) None)
        (Response (Some (select_listings [] example_listings)) None)
        (Response None None) (Response None None) empty_page))
     = [(3, ''sold''), (2, ''deleted''), (1, ''active'')]
   \<and> map lc_id (get_listings_with_coordinates [] example_listings) = [1, 3]"
  by (simp add: fetchData_def select_listings_def example_listings_def example_listing_def
      empty_page_def Let_def unique_def get_listings_with_coordinates_def
      listing_coordinates_row_def material_type_of_def)

section \<open>Uploading an image to the GitHub repository\<close>

text \<open>The three build-time variables; each may be undefined.\<close>

record github_env =
  VITE_GITHUB_TOKEN :: "string option"
  VITE_GITHUB_USERNAME :: "string option"
  VITE_GITHUB_REPO :: "string option"

text \<open>\<^verbatim>\<open>!x\<close> for a string that may be undefined: undefined and the empty string are
  falsy.\<close>

definition falsy :: "string option \<Rightarrow> bool" where
  "falsy x = (case x of None \<Rightarrow> True | Some v \<Rightarrow> v = [])"

text \<open>The character class \<^verbatim>\<open>[a-zA-Z0-9.-]\<close> and the replacement
  \<^verbatim>\<open>name.replace(/[^a-zA-Z0-9.-]/g, '_')\<close>.\<close>

definition allowed_chars :: "char set" where
  "allowed_chars = set (''abcdefghijklmnopqrstuvwxyz'' @ ''ABCDEFGHIJKLMNOPQRSTUVWXYZ''
     @ ''0123456789'' @ ''.-'')"

definition replace_disallowed :: "string \<Rightarrow> string" where
  "replace_disallowed name = map (\<lambda>c. if c \<in> allowed_chars then c else CHR ''_'') name"

text \<open>\<^verbatim>\<open>s.split(',')\<close>: the pieces between the commas.\<close>

fun split_comma :: "string \<Rightarrow> string list" where
  "split_comma [] = [[]]"
| "split_comma (c # cs) =
     (if c = CHR '','' then [] # split_comma cs
      else (case split_comma cs of [] \<Rightarrow> [[c]] | p # ps \<Rightarrow> (c # p) # ps))"

text \<open>\<^verbatim>\<open>xs[1]\<close>, undefined when there is no second element.\<close>

definition second :: "'a list \<Rightarrow> 'a option" where
  "second xs = (if 1 < length xs then Some (xs ! 1) else None)"

record github_request =
  req_url :: string
  req_method :: string
  req_authorization :: string
  req_content_type :: string
  req_message :: string
  req_content :: "string option"
  req_branch :: string

text \<open>
  What \<^verbatim>\<open>fetch\<close> does with the request: it rejects (a network failure, with its
  message), or it resolves to a response with \<^verbatim>\<open>ok\<close>, \<^verbatim>\<open>statusText\<close> and a body
  on which \<^verbatim>\<open>response.json()\<close> succeeds (\<open>None\<close>) or rejects with a message.
\<close>

datatype fetch_result =
    NetworkFailure string
  | HttpResponse (ok: bool) (statusText: string) (json_error: "string option")

datatype 'a outcome = Throws string | Returns 'a

definition upload_error_toast :: "string \<Rightarrow> toast" where
  "upload_error_toast msg =
     \<lparr>title = ''Upload Error'',
      description = (if msg = [] then ''Failed to upload image to GitHub'' else msg),
      destructive = True\<rparr>"

text \<open>The \<^verbatim>\<open>catch\<close> block: a toast, then the error is thrown again.\<close>

definition upload_failed :: "string \<Rightarrow> string outcome \<times> toast list" where
  "upload_failed msg = (Throws msg, [upload_error_toast msg])"

text \<open>
  \<^verbatim>\<open>uploadImageToGitHub(file)\<close>. Besides the file name the run depends on the
  environment variables, on \<^verbatim>\<open>new Date().getTime()\<close>, on
  \<^verbatim>\<open>Math.random().toString(36).substring(2, 8)\<close>, on what the \<^verbatim>\<open>FileReader\<close>
  yields (the data URL, or \<open>None\<close> when it fails, an event without a message) and on
  what \<^verbatim>\<open>fetch\<close> does with the request. The result is the value returned or the
  error thrown, with the toasts shown.
\<close>

definition uploadImageToGitHub ::
  "github_env \<Rightarrow> nat \<Rightarrow> string \<Rightarrow> string option \<Rightarrow> (github_request \<Rightarrow> fetch_result)
     \<Rightarrow> string \<Rightarrow> string outcome \<times> toast list" where
  "uploadImageToGitHub env timestamp randomString readerResult fetch file_name =
     (if falsy (VITE_GITHUB_TOKEN env) \<or> falsy (VITE_GITHUB_USERNAME env)
         \<or> falsy (VITE_GITHUB_REPO env)
      then upload_failed ''GitHub configuration is incomplete. Check your environment variables.''
      else
        let token = the (VITE_GITHUB_TOKEN env);
            username = the (VITE_GITHUB_USERNAME env);
            repo = the (VITE_GITHUB_REPO env);
            fileName = string_of_nat timestamp @ ''_'' @ randomString @ ''_''
                         @ replace_disallowed file_name;
            path = ''images/'' @ fileName
        in
        (case readerResult of
           None \<Rightarrow> upload_failed []
         | Some dataUrl \<Rightarrow>
             let base64Content = second (split_comma dataUrl);
                 request =
                   \<lparr>req_url = ''https://api.github.com/repos/'' @ username @ ''/'' @ repo
                                @ ''/contents/'' @ path,
                    req_method = ''PUT'',
                    req_authorization = ''token '' @ token,
                    req_content_type = ''application/json'',
                    req_message = ''Upload image: '' @ fileName,
                    req_content = base64Content,
                    req_branch = ''main''\<rparr>
             in
             (case fetch request of
                NetworkFailure msg \<Rightarrow> upload_failed msg
              | HttpResponse is_ok status parse_error \<Rightarrow>
                  if \<not> is_ok then
                    (case parse_error of
                       Some msg \<Rightarrow> upload_failed msg
                     | None \<Rightarrow> upload_failed (''Failed to upload to GitHub: '' @ status))
                  else
                    (case parse_error of
                       Some msg \<Rightarrow> upload_failed msg
                     | None \<Rightarrow>
                         (Returns (''https://cdn.jsdelivr.net/gh/'' @ username @ ''/'' @ repo
                                     @ ''@main/'' @ path), [])))))"

text \<open>
  The request that a run sends once the configuration is complete and the file has been
  read as \<open>dataUrl\<close>, and the two ways in which it fails: \<^verbatim>\<open>fetch\<close> rejects, or the
  response is not \<^verbatim>\<open>ok\<close>.
\<close>

definition upload_request ::
  "github_env \<Rightarrow> nat \<Rightarrow> string \<Rightarrow> string \<Rightarrow> string \<Rightarrow> github_request" where
  "upload_request env timestamp randomString dataUrl file_name =
     \<lparr>req_url = ''https://api.github.com/repos/'' @ the (VITE_GITHUB_USERNAME env) @ ''/''
                  @ the (VITE_GITHUB_REPO env) @ ''/contents/images/''
                  @ string_of_nat timestamp @ ''_'' @ randomString @ ''_''
                  @ replace_disallowed file_name,
      req_method = ''PUT'',
      req_authorization = ''token '' @ the (VITE_GITHUB_TOKEN env),
      req_content_type = ''application/json'',
      req_message = ''Upload image: '' @ string_of_nat timestamp @ ''_'' @ randomString
                      @ ''_'' @ replace_disallowed file_name,
      req_content = second (split_comma dataUrl),
      req_branch = ''main''\<rparr>"

definition upload_refused :: "fetch_result \<Rightarrow> bool" where
  "upload_refused r =
     (case r of NetworkFailure msg \<Rightarrow> True
              | HttpResponse is_ok status parse_error \<Rightarrow> \<not> is_ok)"

lemma upload_failed_throws: "fst (upload_failed msg) = Throws msg"
  by (simp add: upload_failed_def)

lemma replace_disallowed_allowed:
  "set (replace_disallowed name) \<subseteq> insert CHR ''_'' allowed_chars"
  by (auto simp add: replace_disallowed_def)

lemma replace_disallowed_length: "length (replace_disallowed name) = length name"
  by (simp add: replace_disallowed_def)

lemma uploadImageToGitHub_sends:
  assumes "\<not> falsy (VITE_GITHUB_TOKEN env)" and "\<not> falsy (VITE_GITHUB_USERNAME env)"
    and "\<not> falsy (VITE_GITHUB_REPO env)"
  shows "uploadImageToGitHub env timestamp randomString (Some dataUrl) fetch file_name =
     (case fetch (upload_request env timestamp randomString dataUrl file_name) of
        NetworkFailure msg \<Rightarrow> upload_failed msg
      | HttpResponse is_ok status parse_error \<Rightarrow>
          if \<not> is_ok then
            (case parse_error of
               Some msg \<Rightarrow> upload_failed msg
             | None \<Rightarrow> upload_failed (''Failed to upload to GitHub: '' @ status))
          else
            (case parse_error of
               Some msg \<Rightarrow> upload_failed msg
             | None \<Rightarrow>
                 (Returns (''https://cdn.jsdelivr.net/gh/'' @ the (VITE_GITHUB_USERNAME env)
                     @ ''/'' @ the (VITE_GITHUB_REPO env) @ ''@main/images/''
                     @ string_of_nat timestamp @ ''_'' @ randomString @ ''_''
                     @ replace_disallowed file_name), [])))"
  using assms
  by (simp add: uploadImageToGitHub_def upload_request_def Let_def
      split: fetch_result.splits option.splits)

text \<open>
  Claim C10. A run of \<^verbatim>\<open>uploadImageToGitHub\<close> throws or returns; when it returns, the
  value is \<^verbatim>\<open>https://cdn.jsdelivr.net/gh/<username>/<repo>@main/images/<fileName>\<close>
  with the configured user name and repository, and the file name is the timestamp, an
  underscore, the random string, an underscore and the original name in which each
  character outside \<^verbatim>\<open>[a-zA-Z0-9.-]\<close> is replaced by an underscore. When a variable
  of the configuration is missing, when the file cannot be read, or when the request that
  the run sends is rejected or answered with a response that is not ok, the run throws.
  A run returns only when the configuration is complete, the file was read and the
  request it sent was answered with an ok response whose body parses.
\<close>

theorem uploadImageToGitHub_result:
  "((\<exists>msg. fst (uploadImageToGitHub env timestamp randomString readerResult fetch file_name)
        = Throws msg)
    \<or> (\<exists>username repo.
        VITE_GITHUB_USERNAME env = Some username \<and> VITE_GITHUB_REPO env = Some repo
        \<and> fst (uploadImageToGitHub env timestamp randomString readerResult fetch file_name)
          = Returns (''https://cdn.jsdelivr.net/gh/'' @ username @ ''/'' @ repo
               @ ''@main/images/'' @ string_of_nat timestamp @ ''_'' @ randomString @ ''_''
               @ map (\<lambda>c. if c \<in> allowed_chars then c else CHR ''_'') file_name)))
   \<and> (falsy (VITE_GITHUB_TOKEN env) \<or> falsy (VITE_GITHUB_USERNAME env)
         \<or> falsy (VITE_GITHUB_REPO env) \<or> readerResult = None
         \<or> (\<exists>dataUrl. readerResult = Some dataUrl
               \<and> upload_refused
                    (fetch (upload_request env timestamp randomString dataUrl file_name)))
       \<longrightarrow> (\<exists>msg. fst (uploadImageToGitHub env timestamp randomString readerResult fetch
                        file_name) = Throws msg))
   \<and> ((\<exists>url. fst (uploadImageToGitHub env timestamp randomString readerResult fetch
                        file_name) = Returns url)
       \<longrightarrow> \<not> falsy (VITE_GITHUB_TOKEN env) \<and> \<not> falsy (VITE_GITHUB_USERNAME env)
           \<and> \<not> falsy (VITE_GITHUB_REPO env)
           \<and> (\<exists>dataUrl status. readerResult = Some dataUrl
                 \<and> fetch (upload_request env timestamp randomString dataUrl file_name)
                     = HttpResponse True status None))"
proof -
  let ?run = "uploadImageToGitHub env timestamp randomString readerResult fetch file_name"
  have form: "(\<exists>msg. fst ?run = Throws msg)
    \<or> (\<exists>username repo.
        VITE_GITHUB_USERNAME env = Some username \<and> VITE_GITHUB_REPO env = Some repo
        \<and> fst ?run
          = Returns (''https://cdn.jsdelivr.net/gh/'' @ username @ ''/'' @ repo
               @ ''@main/images/'' @ string_of_nat timestamp @ ''_'' @ randomString @ ''_''
               @ map (\<lambda>c. if c \<in> allowed_chars then c else CHR ''_'') file_name))"
    by (auto simp add: uploadImageToGitHub_def Let_def upload_failed_def falsy_def
        replace_disallowed_def split: option.splits fetch_result.splits)
  have config: "falsy (VITE_GITHUB_TOKEN env) \<or> falsy (VITE_GITHUB_USERNAME env)
         \<or> falsy (VITE_GITHUB_REPO env) \<Longrightarrow> \<exists>msg. fst ?run = Throws msg"
    by (auto simp add: uploadImageToGitHub_def upload_failed_def)
  have unread: "readerResult = None \<Longrightarrow> \<exists>msg. fst ?run = Throws msg"
    by (auto simp add: uploadImageToGitHub_def upload_failed_def Let_def)
  have refused: "\<exists>msg. fst ?run = Throws msg"
    if r: "readerResult = Some dataUrl"
      "upload_refused (fetch (upload_request env timestamp randomString dataUrl file_name))"
    for dataUrl
  proof (cases "falsy (VITE_GITHUB_TOKEN env) \<or> falsy (VITE_GITHUB_USERNAME env)
         \<or> falsy (VITE_GITHUB_REPO env)")
    case True
    then show ?thesis by (rule config)
  next
    case False
    then have "?run =
       (case fetch (upload_request env timestamp randomString dataUrl file_name) of
          NetworkFailure msg \<Rightarrow> upload_failed msg
        | HttpResponse is_ok status parse_error \<Rightarrow>
            if \<not> is_ok then
              (case parse_error of
                 Some msg \<Rightarrow> upload_failed msg
               | None \<Rightarrow> upload_failed (''Failed to upload to GitHub: '' @ status))
            else
              (case parse_error of
                 Some msg \<Rightarrow> upload_failed msg
               | None \<Rightarrow>
                   (Returns (''https://cdn.jsdelivr.net/gh/'' @ the (VITE_GITHUB_USERNAME env)
                       @ ''/'' @ the (VITE_GITHUB_REPO env) @ ''@main/images/''
                       @ string_of_nat timestamp @ ''_'' @ randomString @ ''_''
                       @ replace_disallowed file_name), [])))"
      using r(1) uploadImageToGitHub_sends by simp
    with r(2) show ?thesis
      by (auto simp add: upload_refused_def upload_failed_def
          split: fetch_result.splits option.splits)
  qed
  have returned: "\<not> falsy (VITE_GITHUB_TOKEN env) \<and> \<not> falsy (VITE_GITHUB_USERNAME env)
           \<and> \<not> falsy (VITE_GITHUB_REPO env)
           \<and> (\<exists>dataUrl status. readerResult = Some dataUrl
                 \<and> fetch (upload_request env timestamp randomString dataUrl file_name)
                     = HttpResponse True status None)"
    if u: "fst ?run = Returns url" for url
  proof -
    from u config have c: "\<not> falsy (VITE_GITHUB_TOKEN env)"
      "\<not> falsy (VITE_GITHUB_USERNAME env)" "\<not> falsy (VITE_GITHUB_REPO env)"
      by auto
    from u unread obtain dataUrl where d: "readerResult = Some dataUrl"
      by (cases readerResult) auto
    from u d uploadImageToGitHub_sends [OF c, of timestamp randomString dataUrl fetch file_name]
    have "\<exists>status. fetch (upload_request env timestamp randomString dataUrl file_name)
                     = HttpResponse True status None"
      by (auto simp add: upload_failed_def split: fetch_result.splits option.splits if_splits)
    with c d show ?thesis by blast
  qed
  from form config unread refused returned show ?thesis by blast
qed

definition example_env :: github_env where
  "example_env = \<lparr>VITE_GITHUB_TOKEN = Some ''t0k'', VITE_GITHUB_USERNAME = Some ''alice'',
     VITE_GITHUB_REPO = Some ''img''\<rparr>"

text \<open>A service that refuses every \<^verbatim>\<open>PUT\<close> as unauthorized and answers every other
  request.\<close>

definition refuses_put :: "github_request \<Rightarrow> fetch_result" where
  "refuses_put request =
     (if req_method request = ''PUT'' then HttpResponse False ''Unauthorized'' None
      else HttpResponse True ''OK'' None)"

lemma uploadImageToGitHub_example:
  "fst (uploadImageToGitHub example_env 42 ''k3x9ab'' (Some ''data:image/png;base64,QUJD'')
          (\<lambda>request. HttpResponse True ''Created'' None) ''my photo.png'')
     = Returns ''https://cdn.jsdelivr.net/gh/alice/img@main/images/42_k3x9ab_my_photo.png''"
  by (simp add: uploadImageToGitHub_def example_env_def falsy_def Let_def
      replace_disallowed_def allowed_chars_def string_of_nat.simps digit_char_def)

theorem uploadImageToGitHub_result_witness:
  "fst (uploadImageToGitHub example_env 42 ''k3x9ab'' (Some ''data:image/png;base64,QUJD'')
          (\<lambda>request. HttpResponse True ''Created'' None) ''my photo.png'')
     = Returns ''https://cdn.jsdelivr.net/gh/alice/img@main/images/42_k3x9ab_my_photo.png''
   \<and> (\<exists>msg. fst (uploadImageToGitHub (example_env\<lparr>VITE_GITHUB_REPO := Some []\<rparr>) 42 ''k3x9ab''
          (Some ''data:image/png;base64,QUJD'')
          (\<lambda>request. HttpResponse True ''Created'' None) ''my photo.png'') = Throws msg)
   \<and> (\<exists>msg. fst (uploadImageToGitHub example_env 42 ''k3x9ab'' None
          (\<lambda>request. HttpResponse True ''Created'' None) ''my photo.png'') = Throws msg)
   \<and> (\<exists>msg. fst (uploadImageToGitHub example_env 42 ''k3x9ab''
          (Some ''data:image/png;base64,QUJD'') refuses_put ''my photo.png'') = Throws msg)
   \<and> refuses_put (upload_request example_env 42 ''k3x9ab'' ''data:image/png;base64,QUJD''
          ''my photo.png'') = HttpResponse False ''Unauthorized'' None
   \<and> refuses_put ((upload_request example_env 42 ''k3x9ab'' ''data:image/png;base64,QUJD''
          ''my photo.png'')\<lparr>req_method := ''GET''\<rparr>) = HttpResponse True ''OK'' None"
proof -
  have missing: "falsy (VITE_GITHUB_REPO (example_env\<lparr>VITE_GITHUB_REPO := Some []\<rparr>))"
    by (simp add: falsy_def)
  have put: "refuses_put (upload_request example_env 42 ''k3x9ab''
          ''data:image/png;base64,QUJD'' ''my photo.png'')
       = HttpResponse False ''Unauthorized'' None"
    by (simp add: refuses_put_def upload_request_def)
  have get: "refuses_put ((upload_request example_env 42 ''k3x9ab''
          ''data:image/png;base64,QUJD'' ''my photo.png'')\<lparr>req_method := ''GET''\<rparr>)
       = HttpResponse True ''OK'' None"
    by (simp add: refuses_put_def)
  from put have refused: "upload_refused (refuses_put (upload_request example_env 42 ''k3x9ab''
          ''data:image/png;base64,QUJD'' ''my photo.png''))"
    by (simp add: upload_refused_def)
  from uploadImageToGitHub_result
         [of "example_env\<lparr>VITE_GITHUB_REPO := Some []\<rparr>" 42 "''k3x9ab''"
             "Some ''data:image/png;base64,QUJD''"
             "\<lambda>request. HttpResponse True ''Created'' None" "''my photo.png''"]
       missing
  have a: "\<exists>msg. fst (uploadImageToGitHub (example_env\<lparr>VITE_GITHUB_REPO := Some []\<rparr>) 42
          ''k3x9ab'' (Some ''data:image/png;base64,QUJD'')
          (\<lambda>request. HttpResponse True ''Created'' None) ''my photo.png'') = Throws msg"
    by blast
  from uploadImageToGitHub_result
         [of example_env 42 "''k3x9ab''" None
             "\<lambda>request. HttpResponse True ''Created'' None" "''my photo.png''"]
  have b: "\<exists>msg. fst (uploadImageToGitHub example_env 42 ''k3x9ab'' None
          (\<lambda>request. HttpResponse True ''Created'' None) ''my photo.png'') = Throws msg"
    by blast
  from uploadImageToGitHub_result
         [of example_env 42 "''k3x9ab''" "Some ''data:image/png;base64,QUJD''"
             refuses_put "''my photo.png''"]
       refused
  have c: "\<exists>msg. fst (uploadImageToGitHub example_env 42 ''k3x9ab''
          (Some ''data:image/png;base64,QUJD'') refuses_put ''my photo.png'') = Throws msg"
    by blast
  from uploadImageToGitHub_example a b c put get show ?thesis by blast
qed

section \<open>The negotiations table\<close>

datatype neg_status = Pending | Accepted | Rejected | Countered

text \<open>Table \<^verbatim>\<open>negotiations\<close> of \<^verbatim>\<open>migration.sql\<close>.\<close>

record negotiation =
  neg_id :: uuid
  neg_listing_id :: uuid
  neg_dealer_id :: uuid
  neg_seller_id :: uuid
  neg_initial_offer :: amount
  neg_counter_offer :: "amount option"
  neg_status :: neg_status
  neg_created_at :: timestamp
  neg_updated_at :: timestamp

text \<open>The database: the two tables and the identifiers of \<^verbatim>\<open>auth.users\<close>.\<close>

record db =
  db_negotiations :: "negotiation list"
  db_scrap_listings :: "listing list"
  db_users :: "uuid list"

subsection \<open>Row-level security\<close>

datatype command = SELECT | INSERT | UPDATE

text \<open>A policy: its command, its \<^verbatim>\<open>USING\<close> expression and its \<^verbatim>\<open>WITH CHECK\<close>
  expression, both over \<^verbatim>\<open>auth.uid()\<close> and the row.\<close>

record policy =
  pol_name :: string
  pol_cmd :: command
  pol_using :: "(uuid \<Rightarrow> negotiation \<Rightarrow> bool) option"
  pol_with_check :: "(uuid \<Rightarrow> negotiation \<Rightarrow> bool) option"

text \<open>The four policies that \<^verbatim>\<open>rls_policies.sql\<close> creates.\<close>

definition rls_policies_sql :: "policy list" where
  "rls_policies_sql =
     [\<lparr>pol_name = ''Users can view their negotiations'', pol_cmd = SELECT,
        pol_using = Some (\<lambda>uid n. uid = neg_dealer_id n \<or> uid = neg_seller_id n),
        pol_with_check = None\<rparr>,
      \<lparr>pol_name = ''Users can create negotiations'', pol_cmd = INSERT,
        pol_using = None,
        pol_with_check = Some (\<lambda>uid n. uid = neg_dealer_id n)\<rparr>,
      \<lparr>pol_name = ''Dealers can update their own negotiations'', pol_cmd = UPDATE,
        pol_using = Some (\<lambda>uid n. uid = neg_dealer_id n),
        pol_with_check = Some (\<lambda>uid n. uid = neg_dealer_id n
                                 \<and> neg_status n \<noteq> Accepted \<and> neg_status n \<noteq> Rejected)\<rparr>,
      \<lparr>pol_name = ''Sellers can update negotiations'', pol_cmd = UPDATE,
        pol_using = Some (\<lambda>uid n. uid = neg_seller_id n),
        pol_with_check = Some (\<lambda>uid n. uid = neg_seller_id n)\<rparr>]"

text \<open>The four policies that \<^verbatim>\<open>fix_negotiations.sql\<close> creates after it has dropped
  and created the table again.\<close>

definition fix_negotiations_sql :: "policy list" where
  "fix_negotiations_sql =
     [\<lparr>pol_name = ''Allow users to view their own negotiations'', pol_cmd = SELECT,
        pol_using = Some (\<lambda>uid n. uid = neg_dealer_id n \<or> uid = neg_seller_id n),
        pol_with_check = None\<rparr>,
      \<lparr>pol_name = ''Allow dealers to insert negotiations'', pol_cmd = INSERT,
        pol_using = None,
        pol_with_check = Some (\<lambda>uid n. uid = neg_dealer_id n)\<rparr>,
      \<lparr>pol_name = ''Allow dealers to update their negotiations'', pol_cmd = UPDATE,
        pol_using = Some (\<lambda>uid n. uid = neg_dealer_id n),
        pol_with_check = Some (\<lambda>uid n. uid = neg_dealer_id n)\<rparr>,
      \<lparr>pol_name = ''Allow sellers to update negotiations for their listings'',
        pol_cmd = UPDATE,
        pol_using = Some (\<lambda>uid n. uid = neg_seller_id n),
        pol_with_check = Some (\<lambda>uid n. uid = neg_seller_id n)\<rparr>]"

text \<open>
  PostgreSQL combines the permissive policies of a command with OR: an existing row is
  reached when some policy's \<^verbatim>\<open>USING\<close> holds of it, a new row is admitted when some
  policy's \<^verbatim>\<open>WITH CHECK\<close> holds of it. A policy without \<^verbatim>\<open>WITH CHECK\<close> checks
  new rows with its \<^verbatim>\<open>USING\<close>. With no policy for a command nothing is allowed.
\<close>

definition using_ok :: "policy list \<Rightarrow> command \<Rightarrow> uuid \<Rightarrow> negotiation \<Rightarrow> bool" where
  "using_ok pols c uid n =
     list_ex (\<lambda>p. pol_cmd p = c
                \<and> (case pol_using p of None \<Rightarrow> True | Some u \<Rightarrow> u uid n)) pols"

definition check_ok :: "policy list \<Rightarrow> command \<Rightarrow> uuid \<Rightarrow> negotiation \<Rightarrow> bool" where
  "check_ok pols c uid n =
     list_ex (\<lambda>p. pol_cmd p = c
                \<and> (case pol_with_check p of
                      Some w \<Rightarrow> w uid n
                    | None \<Rightarrow> (case pol_using p of None \<Rightarrow> True | Some u \<Rightarrow> u uid n))) pols"

subsection \<open>Statements on the table\<close>

definition rls_violation :: pg_error where
  "rls_violation = \<lparr>code = ''42501'',
     message = ''new row violates row-level security policy for table negotiations''\<rparr>"

definition unique_violation :: pg_error where
  "unique_violation = \<lparr>code = ''23505'',
     message = ''duplicate key value violates unique constraint negotiations_pkey''\<rparr>"

definition foreign_key_violation :: pg_error where
  "foreign_key_violation = \<lparr>code = ''23503'',
     message = ''insert or update on table negotiations violates foreign key constraint''\<rparr>"

text \<open>\<^verbatim>\<open>SELECT\<close> by the user \<open>uid\<close>: the rows the policies show that satisfy the
  condition.\<close>

definition db_select ::
  "policy list \<Rightarrow> uuid \<Rightarrow> (negotiation \<Rightarrow> bool) \<Rightarrow> negotiation list \<Rightarrow> negotiation list" where
  "db_select pols uid wh rows = filter (\<lambda>n. using_ok pols SELECT uid n \<and> wh n) rows"

text \<open>
  The constraints of the table: the primary key on \<^verbatim>\<open>id\<close> and the three foreign keys.
  There is no other unique constraint.
\<close>

definition constraint_error :: "db \<Rightarrow> negotiation \<Rightarrow> pg_error option" where
  "constraint_error d n =
     (if list_ex (\<lambda>m. neg_id m = neg_id n) (db_negotiations d) then Some unique_violation
      else if \<not> list_ex (\<lambda>l. l_id l = neg_listing_id n) (db_scrap_listings d)
              \<or> neg_dealer_id n \<notin> set (db_users d) \<or> neg_seller_id n \<notin> set (db_users d)
           then Some foreign_key_violation
      else None)"

text \<open>
  The column type \<^verbatim>\<open>NUMERIC(10, 2)\<close> of \<^verbatim>\<open>initial_offer\<close> and
  \<^verbatim>\<open>counter_offer\<close>: a value written to the column is rounded to two decimals, a tie
  away from zero, and the statement fails with \<^verbatim>\<open>numeric field overflow\<close> when the
  rounded value needs more than eight digits before the decimal point.
\<close>

definition numeric_overflow :: pg_error where
  "numeric_overflow = \<lparr>code = ''22003'', message = ''numeric field overflow''\<rparr>"

definition hundredths :: "amount \<Rightarrow> int" where
  "hundredths x = (if 0 \<le> x then \<lfloor>x * 100 + 1 / 2\<rfloor> else - \<lfloor>- x * 100 + 1 / 2\<rfloor>)"

definition numeric_10_2 :: "amount \<Rightarrow> pg_error + amount" where
  "numeric_10_2 x =
     (if \<bar>hundredths x\<bar> < 10 ^ 10 then Inr (of_int (hundredths x) / 100)
      else Inl numeric_overflow)"

text \<open>The new row of an \<^verbatim>\<open>INSERT\<close> as the table stores it: both amounts in the
  column type.\<close>

definition column_types :: "negotiation \<Rightarrow> pg_error + negotiation" where
  "column_types n =
     (case numeric_10_2 (neg_initial_offer n) of
        Inl e \<Rightarrow> Inl e
      | Inr initial \<Rightarrow>
          (case neg_counter_offer n of
             None \<Rightarrow> Inr (n\<lparr>neg_initial_offer := initial\<rparr>)
           | Some a \<Rightarrow>
               (case numeric_10_2 a of
                  Inl e \<Rightarrow> Inl e
                | Inr counter \<Rightarrow>
                    Inr (n\<lparr>neg_initial_offer := initial, neg_counter_offer := Some counter\<rparr>))))"

text \<open>\<^verbatim>\<open>INSERT\<close> by the user \<open>uid\<close>: the new row is formed in the column types, then
  come the policy check of the new row and the constraints.\<close>

definition db_insert :: "policy list \<Rightarrow> uuid \<Rightarrow> negotiation \<Rightarrow> db \<Rightarrow> pg_error + db" where
  "db_insert pols uid n d =
     (case column_types n of
        Inl e \<Rightarrow> Inl e
      | Inr n' \<Rightarrow>
          if \<not> check_ok pols INSERT uid n' then Inl rls_violation
          else (case constraint_error d n' of
                  Some e \<Rightarrow> Inl e
                | None \<Rightarrow> Inr (d\<lparr>db_negotiations := db_negotiations d @ [n']\<rparr>)))"

text \<open>
  The object given to \<^verbatim>\<open>update(...)\<close>: the columns it names, with their new values.
  The program names \<^verbatim>\<open>status\<close>, \<^verbatim>\<open>initial_offer\<close> and \<^verbatim>\<open>counter_offer\<close> only.
\<close>

record negotiation_update =
  set_initial_offer :: "amount option"
  set_counter_offer :: "amount option"
  set_status :: "neg_status option"

definition no_column :: negotiation_update where
  "no_column = \<lparr>set_initial_offer = None, set_counter_offer = None, set_status = None\<rparr>"

text \<open>The \<^verbatim>\<open>SET\<close> clause on one row: a named amount is converted to the column type,
  a column that is not named keeps its value.\<close>

definition set_columns :: "negotiation_update \<Rightarrow> negotiation \<Rightarrow> pg_error + negotiation" where
  "set_columns u n =
     (case (case set_initial_offer u of
              None \<Rightarrow> Inr (neg_initial_offer n)
            | Some a \<Rightarrow> numeric_10_2 a) of
        Inl e \<Rightarrow> Inl e
      | Inr initial \<Rightarrow>
          (case (case set_counter_offer u of
                   None \<Rightarrow> Inr (neg_counter_offer n)
                 | Some a \<Rightarrow>
                     (case numeric_10_2 a of Inl e \<Rightarrow> Inl e | Inr c \<Rightarrow> Inr (Some c))) of
             Inl e \<Rightarrow> Inl e
           | Inr counter \<Rightarrow>
               Inr (n\<lparr>neg_initial_offer := initial, neg_counter_offer := counter,
                      neg_status := (case set_status u of
                                       None \<Rightarrow> neg_status n
                                     | Some s \<Rightarrow> s)\<rparr>)))"

text \<open>
  \<^verbatim>\<open>UPDATE ... SET ... WHERE ...\<close> by the user \<open>uid\<close>. The statement reaches the rows
  that the \<^verbatim>\<open>SELECT\<close> and \<^verbatim>\<open>UPDATE\<close> policies show and that satisfy the condition;
  rows it does not reach are skipped without an error. For a row it reaches, the new row
  is formed, the trigger \<^verbatim>\<open>update_negotiations_modtime\<close> sets its
  \<^verbatim>\<open>updated_at\<close>, and the \<^verbatim>\<open>WITH CHECK\<close> of the policies is applied to it. When a
  row cannot be formed or fails the check, the whole statement fails with that error and
  the table is as before.
\<close>

definition reached :: "policy list \<Rightarrow> uuid \<Rightarrow> (negotiation \<Rightarrow> bool) \<Rightarrow> negotiation \<Rightarrow> bool" where
  "reached pols uid wh n =
     (using_ok pols SELECT uid n \<and> using_ok pols UPDATE uid n \<and> wh n)"

definition update_row ::
  "policy list \<Rightarrow> uuid \<Rightarrow> (negotiation \<Rightarrow> bool) \<Rightarrow> negotiation_update \<Rightarrow> timestamp
     \<Rightarrow> negotiation \<Rightarrow> pg_error + negotiation" where
  "update_row pols uid wh u now n =
     (if \<not> reached pols uid wh n then Inr n
      else (case set_columns u n of
              Inl e \<Rightarrow> Inl e
            | Inr n' \<Rightarrow>
                if check_ok pols UPDATE uid (n'\<lparr>neg_updated_at := now\<rparr>)
                then Inr (n'\<lparr>neg_updated_at := now\<rparr>)
                else Inl rls_violation))"

text \<open>The rows one after the other; the first error ends the statement.\<close>

fun all_rows :: "(pg_error + negotiation) list \<Rightarrow> pg_error + negotiation list" where
  "all_rows [] = Inr []"
| "all_rows (Inl e # rs) = Inl e"
| "all_rows (Inr n # rs) = (case all_rows rs of Inl e \<Rightarrow> Inl e | Inr ns \<Rightarrow> Inr (n # ns))"

definition db_update ::
  "policy list \<Rightarrow> uuid \<Rightarrow> (negotiation \<Rightarrow> bool) \<Rightarrow> negotiation_update \<Rightarrow> timestamp
     \<Rightarrow> negotiation list \<Rightarrow> pg_error + negotiation list" where
  "db_update pols uid wh u now rows = all_rows (map (update_row pols uid wh u now) rows)"

subsection \<open>The stored function \<^verbatim>\<open>insert_negotiation\<close>\<close>

text \<open>
  \<^verbatim>\<open>insert_negotiation(p_listing_id, p_dealer_id, p_initial_offer, p_seller_id)\<close> is
  \<^verbatim>\<open>SECURITY DEFINER\<close> (``This bypasses RLS for diagnosis purposes'') and granted to
  every authenticated user: the row is inserted with the status \<^verbatim>\<open>'pending'\<close> whoever
  the caller \<open>uid\<close> is. The parameter \<^verbatim>\<open>p_initial_offer\<close> is an unbounded
  \<^verbatim>\<open>NUMERIC\<close>; the insert converts it to the column type and checks the constraints.
  Any error is raised again as an exception of the function.
\<close>

definition insert_negotiation ::
  "uuid \<Rightarrow> uuid \<Rightarrow> uuid \<Rightarrow> amount \<Rightarrow> uuid \<Rightarrow> uuid \<Rightarrow> timestamp \<Rightarrow> db \<Rightarrow> pg_error + (uuid \<times> db)" where
  "insert_negotiation uid p_listing_id p_dealer_id p_initial_offer p_seller_id v_id now d =
     (case (case column_types
                   \<lparr>neg_id = v_id, neg_listing_id = p_listing_id, neg_dealer_id = p_dealer_id,
                    neg_seller_id = p_seller_id, neg_initial_offer = p_initial_offer,
                    neg_counter_offer = None, neg_status = Pending,
                    neg_created_at = now, neg_updated_at = now\<rparr> of
              Inl e \<Rightarrow> Inl e
            | Inr n \<Rightarrow> (case constraint_error d n of Some e \<Rightarrow> Inl e | None \<Rightarrow> Inr n)) of
        Inl e \<Rightarrow> Inl \<lparr>code = ''P0001'',
                         message = ''Error inserting negotiation: '' @ message e\<rparr>
      | Inr n \<Rightarrow> Inr (v_id, d\<lparr>db_negotiations := db_negotiations d @ [n]\<rparr>))"

subsection \<open>What the policies of the two files amount to\<close>

definition source_policies :: "policy list \<Rightarrow> bool" where
  "source_policies pols = (pols = rls_policies_sql \<or> pols = fix_negotiations_sql)"

lemma select_using:
  "source_policies pols \<Longrightarrow>
   using_ok pols SELECT uid n = (uid = neg_dealer_id n \<or> uid = neg_seller_id n)"
  by (auto simp add: source_policies_def using_ok_def rls_policies_sql_def
      fix_negotiations_sql_def)

lemma update_using:
  "source_policies pols \<Longrightarrow>
   using_ok pols UPDATE uid n = (uid = neg_dealer_id n \<or> uid = neg_seller_id n)"
  by (auto simp add: source_policies_def using_ok_def rls_policies_sql_def
      fix_negotiations_sql_def)

lemma insert_check:
  "source_policies pols \<Longrightarrow> check_ok pols INSERT uid n = (uid = neg_dealer_id n)"
  by (auto simp add: source_policies_def check_ok_def rls_policies_sql_def
      fix_negotiations_sql_def)

lemma update_check_rls:
  "check_ok rls_policies_sql UPDATE uid n =
     (uid = neg_dealer_id n \<and> neg_status n \<noteq> Accepted \<and> neg_status n \<noteq> Rejected
      \<or> uid = neg_seller_id n)"
  by (auto simp add: check_ok_def rls_policies_sql_def)


lemma reached_parties:
  "source_policies pols \<Longrightarrow>
   reached pols uid wh n = ((uid = neg_dealer_id n \<or> uid = neg_seller_id n) \<and> wh n)"
  by (auto simp add: reached_def select_using update_using)

lemma hundredths_exact: "hundredths (of_int k / 100) = k"
proof -
  have "\<lfloor>(of_int k :: rat) + 1 / 2\<rfloor> = k" by linarith
  moreover have "\<lfloor>- (of_int k :: rat) + 1 / 2\<rfloor> = - k" by linarith
  ultimately show ?thesis by (simp add: hundredths_def)
qed

text \<open>An amount of at most two decimals and fewer than nine digits before the point is
  stored as it is.\<close>

lemma numeric_10_2_exact:
  "\<bar>k\<bar> < 10 ^ 10 \<Longrightarrow> numeric_10_2 (of_int k / 100) = Inr (of_int k / 100)"
  by (simp add: numeric_10_2_def hundredths_exact)

lemma numeric_10_2_error: "numeric_10_2 x = Inl e \<Longrightarrow> e = numeric_overflow"
  by (auto simp add: numeric_10_2_def split: if_splits)


lemma numeric_10_2_90: "numeric_10_2 90 = Inr 90"
  using numeric_10_2_exact [of 9000] by simp

lemma numeric_10_2_95: "numeric_10_2 95 = Inr 95"
  using numeric_10_2_exact [of 9500] by simp

lemma numeric_10_2_100: "numeric_10_2 100 = Inr 100"
  using numeric_10_2_exact [of 10000] by simp

lemma numeric_10_2_180: "numeric_10_2 180 = Inr 180"
  using numeric_10_2_exact [of 18000] by simp

lemma column_types_error: "column_types n = Inl e \<Longrightarrow> e = numeric_overflow"
  by (auto simp add: column_types_def split: sum.splits option.splits
      dest: numeric_10_2_error)

lemma column_types_keeps:
  assumes "column_types n = Inr n'"
  shows "neg_id n' = neg_id n" and "neg_listing_id n' = neg_listing_id n"
    and "neg_dealer_id n' = neg_dealer_id n" and "neg_seller_id n' = neg_seller_id n"
    and "neg_status n' = neg_status n"
  using assms by (auto simp add: column_types_def split: sum.splits option.splits)

lemma set_columns_error: "set_columns u n = Inl e \<Longrightarrow> e = numeric_overflow"
  by (auto simp add: set_columns_def split: sum.splits option.splits
      dest: numeric_10_2_error)

lemma set_columns_keeps:
  assumes "set_columns u n = Inr n'"
  shows "neg_id n' = neg_id n" and "neg_listing_id n' = neg_listing_id n"
    and "neg_dealer_id n' = neg_dealer_id n" and "neg_seller_id n' = neg_seller_id n"
    and "neg_status n' = (case set_status u of None \<Rightarrow> neg_status n | Some s \<Rightarrow> s)"
    and "set_counter_offer u = None \<Longrightarrow> neg_counter_offer n' = neg_counter_offer n"
  using assms by (auto simp add: set_columns_def split: sum.splits option.splits)

lemma set_columns_status:
  "set_columns (no_column\<lparr>set_status := Some s\<rparr>) n = Inr (n\<lparr>neg_status := s\<rparr>)"
  by (simp add: set_columns_def no_column_def)

lemma set_columns_counter_offer:
  "numeric_10_2 a = Inr c \<Longrightarrow>
   set_columns (no_column\<lparr>set_counter_offer := Some a, set_status := Some s\<rparr>) n
     = Inr (n\<lparr>neg_counter_offer := Some c, neg_status := s\<rparr>)"
  by (simp add: set_columns_def no_column_def)


lemma all_rows_Inr: "all_rows rs = Inr ns \<Longrightarrow> rs = map Inr ns"
proof (induction rs arbitrary: ns)
  case Nil
  then show ?case by simp
next
  case (Cons r rs)
  then show ?case by (cases r) (auto split: sum.splits)
qed

lemma all_rows_Inl: "all_rows rs = Inl e \<Longrightarrow> Inl e \<in> set rs"
proof (induction rs)
  case Nil
  then show ?case by simp
next
  case (Cons r rs)
  then show ?case by (cases r) (auto split: sum.splits)
qed

lemma all_rows_map:
  "(\<And>n. n \<in> set rows \<Longrightarrow> f n = Inr (g n)) \<Longrightarrow> all_rows (map f rows) = Inr (map g rows)"
  by (induction rows) simp_all

lemma all_rows_fails:
  assumes "Inl e \<in> set rs" and "\<And>e'. Inl e' \<in> set rs \<Longrightarrow> e' = e"
  shows "all_rows rs = Inl e"
proof (cases "all_rows rs")
  case (Inl e')
  from all_rows_Inl [OF Inl] assms(2) show ?thesis using Inl by simp
next
  case (Inr ns)
  from all_rows_Inr [OF Inr] assms(1) show ?thesis by auto
qed

lemma db_update_length:
  "db_update pols uid wh u now rows = Inr rows' \<Longrightarrow> length rows' = length rows"
  unfolding db_update_def by (drule all_rows_Inr) (metis length_map)

lemma db_update_row:
  assumes "db_update pols uid wh u now rows = Inr rows'" and "i < length rows"
  shows "update_row pols uid wh u now (rows ! i) = Inr (rows' ! i)"
proof -
  from assms(1) have eq: "map (update_row pols uid wh u now) rows = map Inr rows'"
    unfolding db_update_def by (rule all_rows_Inr)
  then have "length rows' = length rows" by (metis length_map)
  with assms(2) eq show ?thesis by (metis nth_map)
qed

lemma db_update_nth:
  assumes "db_update pols uid wh u now rows = Inr rows'" and "i < length rows"
  shows "if reached pols uid wh (rows ! i)
         then \<exists>n'. set_columns u (rows ! i) = Inr n' \<and> rows' ! i = n'\<lparr>neg_updated_at := now\<rparr>
         else rows' ! i = rows ! i"
  using db_update_row [OF assms]
  by (auto simp add: update_row_def split: sum.splits if_splits)

section \<open>Example database\<close>

definition example_negotiation ::
  "uuid \<Rightarrow> uuid \<Rightarrow> uuid \<Rightarrow> uuid \<Rightarrow> amount option \<Rightarrow> neg_status \<Rightarrow> negotiation" where
  "example_negotiation i l dealer seller counter st =
     \<lparr>neg_id = i, neg_listing_id = l, neg_dealer_id = dealer, neg_seller_id = seller,
      neg_initial_offer = 90, neg_counter_offer = counter, neg_status = st,
      neg_created_at = i, neg_updated_at = i\<rparr>"

definition example_negotiations :: "negotiation list" where
  "example_negotiations =
     [example_negotiation 10 1 5 7 None Pending,
      example_negotiation 11 1 6 7 (Some 95) Countered,
      example_negotiation 12 3 5 8 None Accepted,
      example_negotiation 13 3 6 8 None Rejected]"

definition example_db :: db where
  "example_db = \<lparr>db_negotiations = example_negotiations,
     db_scrap_listings = example_listings, db_users = [5, 6, 7, 8, 9]\<rparr>"

section \<open>Access to negotiations\<close>

text \<open>
  Claim C6, as stated, at a concrete call. The user 9 calls
  \<^verbatim>\<open>insert_negotiation\<close> with the dealer 5: the call succeeds and the table has a
  new pending row whose dealer is 5, not the inserting user. The claim says a row can be
  inserted only when the inserting user is its dealer.
\<close>

theorem insert_negotiation_inserts_for_another_dealer:
  "insert_negotiation 9 1 5 100 7 50 1000 example_db =
     Inr (50, example_db\<lparr>db_negotiations := example_negotiations @
            [\<lparr>neg_id = 50, neg_listing_id = 1, neg_dealer_id = 5, neg_seller_id = 7,
              neg_initial_offer = 100, neg_counter_offer = None, neg_status = Pending,
              neg_created_at = 1000, neg_updated_at = 1000\<rparr>]\<rparr>)
   \<and> (9::uuid) \<noteq> 5"
  by (simp add: insert_negotiation_def column_types_def numeric_10_2_100
      constraint_error_def example_db_def example_negotiations_def example_negotiation_def
      example_listings_def example_listing_def)

text \<open>
  Claim C6, amended. Under the policies of \<^verbatim>\<open>rls_policies.sql\<close> and under those of
  \<^verbatim>\<open>fix_negotiations.sql\<close>: a user sees a row exactly when the user is its dealer or
  its seller; an \<^verbatim>\<open>INSERT\<close> statement of a user succeeds only when the user is the
  dealer of the new row; an \<^verbatim>\<open>UPDATE\<close> statement of a user who is neither dealer nor
  seller of a row leaves that row as it is. The stored function
  \<^verbatim>\<open>insert_negotiation\<close> is outside the policies: when the offer fits the column type
  and the constraints hold, it inserts the pending row with the dealer it is given and the
  offer rounded to two decimals, for any calling user; when the offer does not fit the
  column type, it raises an exception.
\<close>

theorem negotiations_access:
  assumes "source_policies pols"
  shows "(n \<in> set (db_select pols uid (\<lambda>n. True) rows)
            \<longleftrightarrow> n \<in> set rows \<and> (uid = neg_dealer_id n \<or> uid = neg_seller_id n))
    \<and> (\<forall>d'. db_insert pols uid n d = Inr d' \<longrightarrow> uid = neg_dealer_id n)
    \<and> (\<forall>rows' i. db_update pols uid wh u now rows = Inr rows' \<and> i < length rows
            \<and> uid \<noteq> neg_dealer_id (rows ! i) \<and> uid \<noteq> neg_seller_id (rows ! i)
          \<longrightarrow> rows' ! i = rows ! i)
    \<and> (\<forall>offer. numeric_10_2 p_initial_offer = Inr offer
          \<and> constraint_error d
               \<lparr>neg_id = v_id, neg_listing_id = p_listing_id, neg_dealer_id = p_dealer_id,
                neg_seller_id = p_seller_id, neg_initial_offer = offer,
                neg_counter_offer = None, neg_status = Pending,
                neg_created_at = now, neg_updated_at = now\<rparr> = None
          \<longrightarrow> insert_negotiation uid p_listing_id p_dealer_id p_initial_offer p_seller_id
                v_id now d
              = Inr (v_id, d\<lparr>db_negotiations := db_negotiations d @
                  [\<lparr>neg_id = v_id, neg_listing_id = p_listing_id, neg_dealer_id = p_dealer_id,
                    neg_seller_id = p_seller_id, neg_initial_offer = offer,
                    neg_counter_offer = None, neg_status = Pending,
                    neg_created_at = now, neg_updated_at = now\<rparr>]\<rparr>))
    \<and> (\<forall>e. numeric_10_2 p_initial_offer = Inl e
          \<longrightarrow> insert_negotiation uid p_listing_id p_dealer_id p_initial_offer p_seller_id
                v_id now d
              = Inl \<lparr>code = ''P0001'',
                      message = ''Error inserting negotiation: '' @ message e\<rparr>)"
proof -
  have visible: "n \<in> set (db_select pols uid (\<lambda>n. True) rows)
            \<longleftrightarrow> n \<in> set rows \<and> (uid = neg_dealer_id n \<or> uid = neg_seller_id n)"
    using assms by (auto simp add: db_select_def select_using)
  have ins: "\<forall>d'. db_insert pols uid n d = Inr d' \<longrightarrow> uid = neg_dealer_id n"
    using assms
    by (auto simp add: db_insert_def insert_check column_types_keeps
        split: if_splits sum.splits)
  have upd: "\<forall>rows' i. db_update pols uid wh u now rows = Inr rows' \<and> i < length rows
            \<and> uid \<noteq> neg_dealer_id (rows ! i) \<and> uid \<noteq> neg_seller_id (rows ! i)
          \<longrightarrow> rows' ! i = rows ! i"
  proof (intro allI impI, elim conjE)
    fix rows' i
    assume a: "db_update pols uid wh u now rows = Inr rows'" "i < length rows"
      "uid \<noteq> neg_dealer_id (rows ! i)" "uid \<noteq> neg_seller_id (rows ! i)"
    from a(3,4) assms have "\<not> reached pols uid wh (rows ! i)"
      by (simp add: reached_parties)
    with db_update_nth [OF a(1,2)] show "rows' ! i = rows ! i" by simp
  qed
  have rpc: "\<forall>offer. numeric_10_2 p_initial_offer = Inr offer
          \<and> constraint_error d
               \<lparr>neg_id = v_id, neg_listing_id = p_listing_id, neg_dealer_id = p_dealer_id,
                neg_seller_id = p_seller_id, neg_initial_offer = offer,
                neg_counter_offer = None, neg_status = Pending,
                neg_created_at = now, neg_updated_at = now\<rparr> = None
          \<longrightarrow> insert_negotiation uid p_listing_id p_dealer_id p_initial_offer p_seller_id
                v_id now d
              = Inr (v_id, d\<lparr>db_negotiations := db_negotiations d @
                  [\<lparr>neg_id = v_id, neg_listing_id = p_listing_id, neg_dealer_id = p_dealer_id,
                    neg_seller_id = p_seller_id, neg_initial_offer = offer,
                    neg_counter_offer = None, neg_status = Pending,
                    neg_created_at = now, neg_updated_at = now\<rparr>]\<rparr>)"
    by (simp add: insert_negotiation_def column_types_def)
  have overflow: "\<forall>e. numeric_10_2 p_initial_offer = Inl e
          \<longrightarrow> insert_negotiation uid p_listing_id p_dealer_id p_initial_offer p_seller_id
                v_id now d
              = Inl \<lparr>code = ''P0001'',
                      message = ''Error inserting negotiation: '' @ message e\<rparr>"
    by (simp add: insert_negotiation_def column_types_def)
  from visible ins upd rpc overflow show ?thesis by blast
qed

lemma source_policies_rls: "source_policies rls_policies_sql"
  by (simp add: source_policies_def)


text \<open>The user 9, a party to no negotiation, tries to accept every negotiation; the user 5
  inserts an offer of his own.\<close>

lemma example_update_by_stranger:
  "db_update rls_policies_sql 9 (\<lambda>n. True) (no_column\<lparr>set_status := Some Accepted\<rparr>) 2000
     example_negotiations = Inr example_negotiations"
  by (simp add: db_update_def update_row_def reached_def using_ok_def rls_policies_sql_def
      example_negotiations_def example_negotiation_def)

lemma example_insert_by_dealer:
  "db_insert rls_policies_sql 5 (example_negotiation 14 1 5 7 None Pending) example_db
     = Inr (example_db\<lparr>db_negotiations :=
              example_negotiations @ [example_negotiation 14 1 5 7 None Pending]\<rparr>)"
  by (simp add: db_insert_def column_types_def numeric_10_2_90 check_ok_def
      rls_policies_sql_def constraint_error_def example_db_def example_negotiations_def
      example_negotiation_def example_listings_def example_listing_def)

text \<open>An offer of a thousand millions does not fit the column type.\<close>

lemma numeric_10_2_overflow: "numeric_10_2 1000000000 = Inl numeric_overflow"
  by (simp add: numeric_10_2_def hundredths_def)

theorem negotiations_access_witness:
  "example_negotiation 10 1 5 7 None Pending
     \<in> set (db_select rls_policies_sql 5 (\<lambda>n. True) example_negotiations)
   \<and> example_negotiation 10 1 5 7 None Pending
     \<notin> set (db_select rls_policies_sql 9 (\<lambda>n. True) example_negotiations)
   \<and> db_insert rls_policies_sql 5 (example_negotiation 14 1 5 7 None Pending) example_db
     = Inr (example_db\<lparr>db_negotiations :=
              example_negotiations @ [example_negotiation 14 1 5 7 None Pending]\<rparr>)
   \<and> (5::uuid) = neg_dealer_id (example_negotiation 14 1 5 7 None Pending)
   \<and> db_update rls_policies_sql 9 (\<lambda>n. True) (no_column\<lparr>set_status := Some Accepted\<rparr>) 2000
       example_negotiations = Inr example_negotiations
   \<and> insert_negotiation 9 1 5 100 7 50 1000 example_db =
       Inr (50, example_db\<lparr>db_negotiations := db_negotiations example_db @
            [\<lparr>neg_id = 50, neg_listing_id = 1, neg_dealer_id = 5, neg_seller_id = 7,
              neg_initial_offer = 100, neg_counter_offer = None, neg_status = Pending,
              neg_created_at = 1000, neg_updated_at = 1000\<rparr>]\<rparr>)
   \<and> insert_negotiation 9 1 5 1000000000 7 50 1000 example_db =
       Inl \<lparr>code = ''P0001'',
            message = ''Error inserting negotiation: '' @ message numeric_overflow\<rparr>"
proof -
  let ?n = "example_negotiation 10 1 5 7 None Pending"
  have member: "?n \<in> set example_negotiations"
    by (simp add: example_negotiations_def)
  have party: "(5::uuid) = neg_dealer_id ?n \<or> (5::uuid) = neg_seller_id ?n"
    by (simp add: example_negotiation_def)
  have stranger: "\<not> ((9::uuid) = neg_dealer_id ?n \<or> (9::uuid) = neg_seller_id ?n)"
    by (simp add: example_negotiation_def)
  have free: "constraint_error example_db
           \<lparr>neg_id = 50, neg_listing_id = 1, neg_dealer_id = 5,
            neg_seller_id = 7, neg_initial_offer = 100,
            neg_counter_offer = None, neg_status = Pending,
            neg_created_at = 1000, neg_updated_at = 1000\<rparr> = None"
    by (simp add: constraint_error_def example_db_def example_negotiations_def
        example_negotiation_def example_listings_def example_listing_def)
  note a5 = negotiations_access [OF source_policies_rls,
      where uid = 5 and n = "example_negotiation 14 1 5 7 None Pending" and d = example_db]
  note s5 = negotiations_access [OF source_policies_rls,
      where uid = 5 and n = ?n and rows = example_negotiations]
  note s9 = negotiations_access [OF source_policies_rls,
      where uid = 9 and n = ?n and rows = example_negotiations
        and p_listing_id = 1 and p_dealer_id = 5 and p_initial_offer = 100
        and p_seller_id = 7 and v_id = 50 and now = 1000 and d = example_db]
  note big = negotiations_access [OF source_policies_rls,
      where uid = 9 and p_listing_id = 1 and p_dealer_id = 5
        and p_initial_offer = 1000000000 and p_seller_id = 7 and v_id = 50 and now = 1000
        and d = example_db]
  from s5 member party have v5: "?n \<in> set (db_select rls_policies_sql 5 (\<lambda>n. True)
      example_negotiations)"
    by blast
  from s9 stranger have v9: "?n \<notin> set (db_select rls_policies_sql 9 (\<lambda>n. True)
      example_negotiations)"
    by blast
  from a5 example_insert_by_dealer
  have dealer: "(5::uuid) = neg_dealer_id (example_negotiation 14 1 5 7 None Pending)"
    by blast
  from big numeric_10_2_overflow
  have refused: "insert_negotiation 9 1 5 1000000000 7 50 1000 example_db =
       Inl \<lparr>code = ''P0001'',
            message = ''Error inserting negotiation: '' @ message numeric_overflow\<rparr>"
    by blast
  from s9 numeric_10_2_100 free have rpc: "insert_negotiation 9 1 5 100 7 50 1000 example_db =
       Inr (50, example_db\<lparr>db_negotiations := db_negotiations example_db @
            [\<lparr>neg_id = 50, neg_listing_id = 1, neg_dealer_id = 5, neg_seller_id = 7,
              neg_initial_offer = 100, neg_counter_offer = None, neg_status = Pending,
              neg_created_at = 1000, neg_updated_at = 1000\<rparr>]\<rparr>)"
    by blast
  from v5 v9 example_insert_by_dealer dealer example_update_by_stranger rpc refused
  show ?thesis by simp
qed

section \<open>The seller's negotiation manager\<close>

text \<open>
  A request can be answered with an error that comes from outside the database as the SQL
  files define it, such as a failure of the network or of the service. Then the database
  is as before. Otherwise the answer is what the statement yields.
\<close>

definition answer :: "pg_error option \<Rightarrow> pg_error + 'a \<Rightarrow> pg_error + 'a" where
  "answer fault r = (case fault of Some e \<Rightarrow> Inl e | None \<Rightarrow> r)"

text \<open>
  The state of the component \<^verbatim>\<open>NegotiationsManager\<close>. The rows it lists are kept
  without the joined dealer and listing names, which are only displayed. An entry of
  \<^verbatim>\<open>counterOffer\<close> is \<open>None\<close> when the object has no such key or holds \<^verbatim>\<open>NaN\<close>.
\<close>

record manager =
  m_negotiations :: "negotiation list"
  m_loading :: bool
  m_error :: "string option"
  m_counterOffer :: "uuid \<Rightarrow> amount option"
  m_processingId :: "uuid option"
  m_toasts :: "toast list"

text \<open>The manager when the component is mounted.\<close>

definition empty_manager :: manager where
  "empty_manager = \<lparr>m_negotiations = [], m_loading = True, m_error = None,
     m_counterOffer = (\<lambda>i. None), m_processingId = None, m_toasts = []\<rparr>"

definition error_toast :: "pg_error \<Rightarrow> string \<Rightarrow> toast" where
  "error_toast e fallback =
     \<lparr>title = ''Error'', description = message_or e fallback, destructive = True\<rparr>"

definition info_toast :: "string \<Rightarrow> string \<Rightarrow> toast" where
  "info_toast t d = \<lparr>title = t, description = d, destructive = False\<rparr>"

text \<open>The query of \<^verbatim>\<open>fetchNegotiations\<close>: the negotiations of the listing when a
  listing is given, otherwise the pending ones in which the user is dealer or seller;
  the newest first.\<close>

definition manager_query :: "uuid \<Rightarrow> uuid option \<Rightarrow> negotiation \<Rightarrow> bool" where
  "manager_query uid listingId n =
     (case listingId of
        Some l \<Rightarrow> neg_listing_id n = l
      | None \<Rightarrow> (neg_dealer_id n = uid \<or> neg_seller_id n = uid) \<and> neg_status n = Pending)"

definition newest_first :: "negotiation list \<Rightarrow> negotiation list" where
  "newest_first rows = rev (sort_key neg_created_at rows)"

definition table_error_message :: "pg_error \<Rightarrow> string" where
  "table_error_message e =
     (if code e = ''42P01''
      then ''The negotiations table doesn't exist. Please check your database schema.''
      else if code e = ''PGRST301''
      then ''You don't have permission to access negotiations. Check RLS policies.''
      else message e)"

definition fetchNegotiations ::
  "policy list \<Rightarrow> uuid option \<Rightarrow> uuid option \<Rightarrow> pg_error option \<Rightarrow> pg_error option
     \<Rightarrow> db \<Rightarrow> manager \<Rightarrow> manager" where
  "fetchNegotiations pols user listingId tableFault queryFault d m =
     (case user of
        None \<Rightarrow> m
      | Some uid \<Rightarrow>
          let m1 = m\<lparr>m_loading := True, m_error := None\<rparr> in
          (case tableFault of
             Some tableError \<Rightarrow>
               m1\<lparr>m_error := Some (if table_error_message tableError = []
                                     then ''Failed to access negotiations table''
                                     else table_error_message tableError),
                  m_loading := False\<rparr>
           | None \<Rightarrow>
               (case answer queryFault
                       (Inr (newest_first
                          (db_select pols uid (manager_query uid listingId)
                             (db_negotiations d)))) of
                  Inl e \<Rightarrow>
                    m1\<lparr>m_error := Some ''Failed to load negotiations data'',
                       m_toasts := m_toasts m1 @
                         [\<lparr>title = ''Error'', description = ''Failed to load negotiations data'',
                           destructive = True\<rparr>],
                       m_loading := False\<rparr>
                | Inr rows \<Rightarrow>
                    if rows \<noteq> [] then
                      m1\<lparr>m_counterOffer :=
                           (\<lambda>i. map_option neg_initial_offer (find (\<lambda>n. neg_id n = i) (rev rows))),
                         m_negotiations := rows, m_loading := False\<rparr>
                    else m1\<lparr>m_negotiations := [], m_loading := False\<rparr>)))"

text \<open>The three requests of the manager: each names a row by its id only and sets the new
  status; the counter-offer also writes the amount.\<close>

definition accept_request ::
  "policy list \<Rightarrow> uuid \<Rightarrow> timestamp \<Rightarrow> pg_error option \<Rightarrow> uuid \<Rightarrow> db
     \<Rightarrow> pg_error + negotiation list" where
  "accept_request pols uid now fault negotiationId d =
     answer fault (db_update pols uid (\<lambda>n. neg_id n = negotiationId)
       (no_column\<lparr>set_status := Some Accepted\<rparr>) now (db_negotiations d))"

definition reject_request ::
  "policy list \<Rightarrow> uuid \<Rightarrow> timestamp \<Rightarrow> pg_error option \<Rightarrow> uuid \<Rightarrow> db
     \<Rightarrow> pg_error + negotiation list" where
  "reject_request pols uid now fault negotiationId d =
     answer fault (db_update pols uid (\<lambda>n. neg_id n = negotiationId)
       (no_column\<lparr>set_status := Some Rejected\<rparr>) now (db_negotiations d))"

definition counter_request ::
  "policy list \<Rightarrow> uuid \<Rightarrow> timestamp \<Rightarrow> pg_error option \<Rightarrow> uuid \<Rightarrow> amount \<Rightarrow> db
     \<Rightarrow> pg_error + negotiation list" where
  "counter_request pols uid now fault negotiationId offerAmount d =
     answer fault (db_update pols uid (\<lambda>n. neg_id n = negotiationId)
       (no_column\<lparr>set_counter_offer := Some offerAmount, set_status := Some Countered\<rparr>) now
       (db_negotiations d))"

text \<open>After a request without error: the success toast, and the row leaves the list.\<close>

definition manager_done :: "uuid \<Rightarrow> toast \<Rightarrow> manager \<Rightarrow> manager" where
  "manager_done negotiationId t m =
     m\<lparr>m_toasts := m_toasts m @ [t],
       m_negotiations := filter (\<lambda>n. neg_id n \<noteq> negotiationId) (m_negotiations m),
       m_processingId := None\<rparr>"

text \<open>After a request with an error: the \<^verbatim>\<open>catch\<close> block and \<^verbatim>\<open>finally\<close>.\<close>

definition manager_failed :: "pg_error \<Rightarrow> string \<Rightarrow> manager \<Rightarrow> manager" where
  "manager_failed e fallback m =
     m\<lparr>m_toasts := m_toasts m @ [error_toast e fallback], m_processingId := None\<rparr>"

definition handleAcceptOffer ::
  "policy list \<Rightarrow> uuid \<Rightarrow> timestamp \<Rightarrow> pg_error option \<Rightarrow> uuid \<Rightarrow> db \<times> manager
     \<Rightarrow> db \<times> manager" where
  "handleAcceptOffer pols uid now fault negotiationId s =
     (let d = fst s; m = (snd s)\<lparr>m_processingId := Some negotiationId\<rparr> in
      case find (\<lambda>n. neg_id n = negotiationId) (m_negotiations m) of
        None \<Rightarrow> (d, m\<lparr>m_processingId := None\<rparr>)
      | Some negotiation \<Rightarrow>
          (case accept_request pols uid now fault negotiationId d of
             Inl e \<Rightarrow> (d, manager_failed e ''Failed to accept the offer'' m)
           | Inr rows \<Rightarrow>
               (d\<lparr>db_negotiations := rows\<rparr>,
                manager_done negotiationId
                  (info_toast ''Offer Accepted'' ''You have accepted the dealer's offer'') m)))"

definition handleRejectOffer ::
  "policy list \<Rightarrow> uuid \<Rightarrow> timestamp \<Rightarrow> pg_error option \<Rightarrow> uuid \<Rightarrow> db \<times> manager
     \<Rightarrow> db \<times> manager" where
  "handleRejectOffer pols uid now fault negotiationId s =
     (let d = fst s; m = (snd s)\<lparr>m_processingId := Some negotiationId\<rparr> in
      case reject_request pols uid now fault negotiationId d of
        Inl e \<Rightarrow> (d, manager_failed e ''Failed to reject the offer'' m)
      | Inr rows \<Rightarrow>
          (d\<lparr>db_negotiations := rows\<rparr>,
           manager_done negotiationId
             (info_toast ''Offer Rejected'' ''You have rejected the dealer's offer'') m))"

text \<open>\<^verbatim>\<open>!offerAmount || offerAmount <= 0\<close>: no entry, \<^verbatim>\<open>NaN\<close>, zero or negative.\<close>

definition invalid_amount :: "amount option \<Rightarrow> bool" where
  "invalid_amount a = (case a of None \<Rightarrow> True | Some v \<Rightarrow> v \<le> 0)"

definition handleCounterOffer ::
  "policy list \<Rightarrow> uuid \<Rightarrow> timestamp \<Rightarrow> pg_error option \<Rightarrow> uuid \<Rightarrow> db \<times> manager
     \<Rightarrow> db \<times> manager" where
  "handleCounterOffer pols uid now fault negotiationId s =
     (let d = fst s; m = (snd s)\<lparr>m_processingId := Some negotiationId\<rparr> in
      if invalid_amount (m_counterOffer m negotiationId) then
        (d, m\<lparr>m_toasts := m_toasts m @
                 [\<lparr>title = ''Invalid Amount'',
                   description = ''Please enter a valid counter offer amount'',
                   destructive = True\<rparr>],
               m_processingId := None\<rparr>)
      else
        (case counter_request pols uid now fault negotiationId
                (the (m_counterOffer m negotiationId)) d of
           Inl e \<Rightarrow> (d, manager_failed e ''Failed to send counter offer'' m)
         | Inr rows \<Rightarrow>
             (d\<lparr>db_negotiations := rows\<rparr>,
              manager_done negotiationId
                (info_toast ''Counter Offer Sent''
                   ''Your counter offer has been sent to the dealer'') m)))"

section \<open>Failure of a request of the manager\<close>

text \<open>
  Claim C7. When the request of \<^verbatim>\<open>handleAcceptOffer\<close>, \<^verbatim>\<open>handleRejectOffer\<close> or
  \<^verbatim>\<open>handleCounterOffer\<close> answers with an error, the database is as before, the list of
  negotiations of the manager is as before, and a destructive toast titled
  \<^verbatim>\<open>Error\<close> is added (its text is the message of the error, or the handler's own text
  when the message is empty). When the request answers without an error, the table is
  the one the statement yields and the row with that id is taken out of the list: the row
  leaves the list only then.
\<close>

theorem manager_request_error:
  "(find (\<lambda>n. neg_id n = negotiationId) (m_negotiations m) \<noteq> None \<longrightarrow>
      (\<forall>e. accept_request pols uid now fault negotiationId d = Inl e \<longrightarrow>
         handleAcceptOffer pols uid now fault negotiationId (d, m)
           = (d, m\<lparr>m_toasts := m_toasts m @
                     [\<lparr>title = ''Error'',
                       description = message_or e ''Failed to accept the offer'',
                       destructive = True\<rparr>],
                   m_processingId := None\<rparr>))
    \<and> (\<forall>rows. accept_request pols uid now fault negotiationId d = Inr rows \<longrightarrow>
         fst (handleAcceptOffer pols uid now fault negotiationId (d, m))
           = d\<lparr>db_negotiations := rows\<rparr>
         \<and> m_negotiations (snd (handleAcceptOffer pols uid now fault negotiationId (d, m)))
           = filter (\<lambda>n. neg_id n \<noteq> negotiationId) (m_negotiations m)))
   \<and> (\<forall>e. reject_request pols uid now fault negotiationId d = Inl e \<longrightarrow>
         handleRejectOffer pols uid now fault negotiationId (d, m)
           = (d, m\<lparr>m_toasts := m_toasts m @
                     [\<lparr>title = ''Error'',
                       description = message_or e ''Failed to reject the offer'',
                       destructive = True\<rparr>],
                   m_processingId := None\<rparr>))
   \<and> (\<forall>rows. reject_request pols uid now fault negotiationId d = Inr rows \<longrightarrow>
         fst (handleRejectOffer pols uid now fault negotiationId (d, m))
           = d\<lparr>db_negotiations := rows\<rparr>
         \<and> m_negotiations (snd (handleRejectOffer pols uid now fault negotiationId (d, m)))
           = filter (\<lambda>n. neg_id n \<noteq> negotiationId) (m_negotiations m))
   \<and> (\<forall>offerAmount. m_counterOffer m negotiationId = Some offerAmount \<and> 0 < offerAmount \<longrightarrow>
        (\<forall>e. counter_request pols uid now fault negotiationId offerAmount d = Inl e \<longrightarrow>
           handleCounterOffer pols uid now fault negotiationId (d, m)
             = (d, m\<lparr>m_toasts := m_toasts m @
                       [\<lparr>title = ''Error'',
                         description = message_or e ''Failed to send counter offer'',
                         destructive = True\<rparr>],
                     m_processingId := None\<rparr>))
      \<and> (\<forall>rows. counter_request pols uid now fault negotiationId offerAmount d = Inr rows \<longrightarrow>
           fst (handleCounterOffer pols uid now fault negotiationId (d, m))
             = d\<lparr>db_negotiations := rows\<rparr>
           \<and> m_negotiations (snd (handleCounterOffer pols uid now fault negotiationId (d, m)))
             = filter (\<lambda>n. neg_id n \<noteq> negotiationId) (m_negotiations m)))"
proof -
  have accept: "find (\<lambda>n. neg_id n = negotiationId) (m_negotiations m) \<noteq> None \<longrightarrow>
      (\<forall>e. accept_request pols uid now fault negotiationId d = Inl e \<longrightarrow>
         handleAcceptOffer pols uid now fault negotiationId (d, m)
           = (d, m\<lparr>m_toasts := m_toasts m @
                     [\<lparr>title = ''Error'',
                       description = message_or e ''Failed to accept the offer'',
                       destructive = True\<rparr>],
                   m_processingId := None\<rparr>))
    \<and> (\<forall>rows. accept_request pols uid now fault negotiationId d = Inr rows \<longrightarrow>
         fst (handleAcceptOffer pols uid now fault negotiationId (d, m))
           = d\<lparr>db_negotiations := rows\<rparr>
         \<and> m_negotiations (snd (handleAcceptOffer pols uid now fault negotiationId (d, m)))
           = filter (\<lambda>n. neg_id n \<noteq> negotiationId) (m_negotiations m))"
    by (auto simp add: handleAcceptOffer_def Let_def manager_failed_def manager_done_def
        error_toast_def)
  have reject: "(\<forall>e. reject_request pols uid now fault negotiationId d = Inl e \<longrightarrow>
         handleRejectOffer pols uid now fault negotiationId (d, m)
           = (d, m\<lparr>m_toasts := m_toasts m @
                     [\<lparr>title = ''Error'',
                       description = message_or e ''Failed to reject the offer'',
                       destructive = True\<rparr>],
                   m_processingId := None\<rparr>))
   \<and> (\<forall>rows. reject_request pols uid now fault negotiationId d = Inr rows \<longrightarrow>
         fst (handleRejectOffer pols uid now fault negotiationId (d, m))
           = d\<lparr>db_negotiations := rows\<rparr>
         \<and> m_negotiations (snd (handleRejectOffer pols uid now fault negotiationId (d, m)))
           = filter (\<lambda>n. neg_id n \<noteq> negotiationId) (m_negotiations m))"
    by (simp add: handleRejectOffer_def Let_def manager_failed_def manager_done_def
        error_toast_def)
  have counter: "\<forall>offerAmount. m_counterOffer m negotiationId = Some offerAmount
        \<and> 0 < offerAmount \<longrightarrow>
        (\<forall>e. counter_request pols uid now fault negotiationId offerAmount d = Inl e \<longrightarrow>
           handleCounterOffer pols uid now fault negotiationId (d, m)
             = (d, m\<lparr>m_toasts := m_toasts m @
                       [\<lparr>title = ''Error'',
                         description = message_or e ''Failed to send counter offer'',
                         destructive = True\<rparr>],
                     m_processingId := None\<rparr>))
      \<and> (\<forall>rows. counter_request pols uid now fault negotiationId offerAmount d = Inr rows \<longrightarrow>
           fst (handleCounterOffer pols uid now fault negotiationId (d, m))
             = d\<lparr>db_negotiations := rows\<rparr>
           \<and> m_negotiations (snd (handleCounterOffer pols uid now fault negotiationId (d, m)))
             = filter (\<lambda>n. neg_id n \<noteq> negotiationId) (m_negotiations m))"
    by (simp add: handleCounterOffer_def Let_def manager_failed_def manager_done_def
        error_toast_def invalid_amount_def)
  from accept reject counter show ?thesis by blast
qed

definition example_manager :: manager where
  "example_manager =
     \<lparr>m_negotiations = [example_negotiation 10 1 5 7 None Pending],
      m_loading = False, m_error = None,
      m_counterOffer = (\<lambda>i. if i = 10 then Some 95 else None),
      m_processingId = None, m_toasts = []\<rparr>"

definition network_down :: pg_error where
  "network_down = \<lparr>code = [], message = ''Failed to fetch''\<rparr>"

text \<open>The dealer 5 presses Accept on his own pending offer: the dealer policy of
  \<^verbatim>\<open>rls_policies.sql\<close> refuses the new row. The seller 7 rejects and counters while the
  network is down.\<close>

lemma example_accept_refused:
  "accept_request rls_policies_sql 5 2000 None 10 example_db = Inl rls_violation"
  by (simp add: accept_request_def answer_def db_update_def update_row_def
      set_columns_status reached_def using_ok_def check_ok_def rls_policies_sql_def
      example_db_def example_negotiations_def example_negotiation_def)

theorem manager_request_error_witness:
  "handleAcceptOffer rls_policies_sql 5 2000 None 10 (example_db, example_manager)
     = (example_db, example_manager\<lparr>m_toasts := m_toasts example_manager @
          [\<lparr>title = ''Error'',
            description = message_or rls_violation ''Failed to accept the offer'',
            destructive = True\<rparr>],
        m_processingId := None\<rparr>)
   \<and> handleRejectOffer rls_policies_sql 7 2000 (Some network_down) 10
       (example_db, example_manager)
     = (example_db, example_manager\<lparr>m_toasts := m_toasts example_manager @
          [\<lparr>title = ''Error'',
            description = message_or network_down ''Failed to reject the offer'',
            destructive = True\<rparr>],
        m_processingId := None\<rparr>)
   \<and> handleCounterOffer rls_policies_sql 7 2000 (Some network_down) 10
       (example_db, example_manager)
     = (example_db, example_manager\<lparr>m_toasts := m_toasts example_manager @
          [\<lparr>title = ''Error'',
            description = message_or network_down ''Failed to send counter offer'',
            destructive = True\<rparr>],
        m_processingId := None\<rparr>)"
proof -
  have found: "find (\<lambda>n. neg_id n = 10) (m_negotiations example_manager) \<noteq> None"
    by (simp add: example_manager_def example_negotiation_def)
  have reject: "reject_request rls_policies_sql 7 2000 (Some network_down) 10 example_db
      = Inl network_down"
    by (simp add: reject_request_def answer_def)
  have amount: "m_counterOffer example_manager 10 = Some 95 \<and> (0::amount) < 95"
    by (simp add: example_manager_def)
  have counter: "counter_request rls_policies_sql 7 2000 (Some network_down) 10 95 example_db
      = Inl network_down"
    by (simp add: counter_request_def answer_def)
  note dealer = manager_request_error [where pols = rls_policies_sql and uid = 5
      and now = 2000 and fault = None and negotiationId = 10 and d = example_db
      and m = example_manager]
  note seller = manager_request_error [where pols = rls_policies_sql and uid = 7
      and now = 2000 and fault = "Some network_down" and negotiationId = 10
      and d = example_db and m = example_manager]
  from dealer found example_accept_refused
  have a: "handleAcceptOffer rls_policies_sql 5 2000 None 10 (example_db, example_manager)
     = (example_db, example_manager\<lparr>m_toasts := m_toasts example_manager @
          [\<lparr>title = ''Error'',
            description = message_or rls_violation ''Failed to accept the offer'',
            destructive = True\<rparr>],
        m_processingId := None\<rparr>)"
    by blast
  from seller reject
  have r: "handleRejectOffer rls_policies_sql 7 2000 (Some network_down) 10
       (example_db, example_manager)
     = (example_db, example_manager\<lparr>m_toasts := m_toasts example_manager @
          [\<lparr>title = ''Error'',
            description = message_or network_down ''Failed to reject the offer'',
            destructive = True\<rparr>],
        m_processingId := None\<rparr>)"
    by blast
  from seller amount counter
  have c: "handleCounterOffer rls_policies_sql 7 2000 (Some network_down) 10
       (example_db, example_manager)
     = (example_db, example_manager\<lparr>m_toasts := m_toasts example_manager @
          [\<lparr>title = ''Error'',
            description = message_or network_down ''Failed to send counter offer'',
            destructive = True\<rparr>],
        m_processingId := None\<rparr>)"
    by blast
  from a r c show ?thesis by blast
qed

section \<open>The buyer's negotiation dialog\<close>

text \<open>
  The state of the component \<^verbatim>\<open>NegotiationDialog\<close>. The offer is \<open>None\<close> when the
  input field holds \<^verbatim>\<open>NaN\<close>.
\<close>

record dialog =
  d_open :: bool
  d_loading :: bool
  d_checkingExisting :: bool
  d_existingNegotiation :: "negotiation option"
  d_initialOffer :: "amount option"
  d_toasts :: "toast list"

definition initial_dialog :: "amount \<Rightarrow> dialog" where
  "initial_dialog askingPrice =
     \<lparr>d_open = False, d_loading = False, d_checkingExisting = True,
      d_existingNegotiation = None, d_initialOffer = Some (askingPrice * 0.9),
      d_toasts = []\<rparr>"

text \<open>
  \<^verbatim>\<open>checkExistingNegotiation\<close>: the newest negotiation of the user as dealer on the
  listing. An error of the request is logged only; the negotiation held in the state stays
  what it was.
\<close>

definition checkExistingNegotiation ::
  "policy list \<Rightarrow> uuid option \<Rightarrow> uuid \<Rightarrow> pg_error option \<Rightarrow> db \<Rightarrow> dialog \<Rightarrow> dialog" where
  "checkExistingNegotiation pols user listingId fault d dlg =
     (case user of
        None \<Rightarrow> dlg
      | Some uid \<Rightarrow>
          (case answer fault
                  (Inr (take 1 (newest_first
                     (db_select pols uid
                        (\<lambda>n. neg_listing_id n = listingId \<and> neg_dealer_id n = uid)
                        (db_negotiations d))))) of
             Inl e \<Rightarrow> dlg\<lparr>d_checkingExisting := False\<rparr>
           | Inr rows \<Rightarrow>
               dlg\<lparr>d_existingNegotiation := (case rows of [] \<Rightarrow> None | n # ns \<Rightarrow> Some n),
                   d_checkingExisting := False\<rparr>))"

text \<open>What the dialog renders when it is open: the spinner while checking, the existing
  negotiation when there is one, the offer form otherwise.\<close>

datatype dialog_view = Closed | Spinner | ExistingNegotiation negotiation | OfferForm

definition dialog_view :: "dialog \<Rightarrow> dialog_view" where
  "dialog_view dlg =
     (if \<not> d_open dlg then Closed
      else if d_checkingExisting dlg then Spinner
      else (case d_existingNegotiation dlg of
              Some n \<Rightarrow> ExistingNegotiation n
            | None \<Rightarrow> OfferForm))"

text \<open>The dialog as it is when the user has just opened it; the check runs then.\<close>

definition opened_dialog :: "amount \<Rightarrow> dialog" where
  "opened_dialog askingPrice = (initial_dialog askingPrice)\<lparr>d_open := True\<rparr>"

definition not_null_violation :: pg_error where
  "not_null_violation = \<lparr>code = ''23502'',
     message = ''null value in column initial_offer violates not-null constraint''\<rparr>"

text \<open>
  Stored functions are called by name. The SQL files define \<^verbatim>\<open>insert_negotiation\<close>;
  the dialog calls \<^verbatim>\<open>insert_negotiation_with_seller\<close>, which none of them defines.
\<close>

definition rpc ::
  "string \<Rightarrow> uuid \<Rightarrow> uuid \<Rightarrow> uuid \<Rightarrow> amount option \<Rightarrow> uuid \<Rightarrow> uuid \<Rightarrow> timestamp \<Rightarrow> db
     \<Rightarrow> pg_error + (uuid \<times> db)" where
  "rpc name uid p_listing_id p_dealer_id p_initial_offer p_seller_id v_id now d =
     (if name = ''insert_negotiation'' then
        (case p_initial_offer of
           None \<Rightarrow> Inl \<lparr>code = ''P0001'',
                            message = ''Error inserting negotiation: '' @ message not_null_violation\<rparr>
         | Some offer \<Rightarrow>
             insert_negotiation uid p_listing_id p_dealer_id offer p_seller_id v_id now d)
      else Inl \<lparr>code = ''PGRST202'', message = ''Could not find the function''\<rparr>)"

text \<open>\<^verbatim>\<open>.eq('id', listingId).single()\<close> on the listings: the row when there is
  exactly one, an error otherwise.\<close>

definition single_listing :: "uuid \<Rightarrow> listing list \<Rightarrow> pg_error + listing" where
  "single_listing listingId ls =
     (case filter (\<lambda>l. l_id l = listingId) ls of
        [l] \<Rightarrow> Inr l
      | _ \<Rightarrow> Inl \<lparr>code = ''PGRST116'',
                   message = ''JSON object requested, multiple (or no) rows returned''\<rparr>)"

text \<open>The errors with which the five requests of \<^verbatim>\<open>handleSubmit\<close> may be answered
  from outside the database; \<^verbatim>\<open>auth.getUser()\<close> may also answer without an error
  and without a user.\<close>

record submit_faults =
  listing_fault :: "pg_error option"
  auth_fault :: "pg_error option"
  auth_user_missing :: bool
  insert_fault :: "pg_error option"
  update_fault :: "pg_error option"
  rpc_fault :: "pg_error option"

definition no_faults :: submit_faults where
  "no_faults = \<lparr>listing_fault = None, auth_fault = None, auth_user_missing = False,
     insert_fault = None, update_fault = None, rpc_fault = None\<rparr>"

text \<open>The \<^verbatim>\<open>catch\<close> block of \<^verbatim>\<open>handleSubmit\<close> with \<^verbatim>\<open>finally\<close>.\<close>

definition submit_failed :: "string \<Rightarrow> dialog \<Rightarrow> dialog" where
  "submit_failed msg dlg =
     dlg\<lparr>d_toasts := d_toasts dlg @
           [\<lparr>title = ''Error'',
             description = (if msg = [] then ''Failed to send your offer. Please try again.''
                            else msg),
             destructive = True\<rparr>],
         d_loading := False\<rparr>"

definition submit_done :: "string \<Rightarrow> dialog \<Rightarrow> dialog" where
  "submit_done text dlg =
     dlg\<lparr>d_toasts := d_toasts dlg @ [info_toast ''Offer Sent'' text],
         d_open := False, d_loading := False\<rparr>"

text \<open>
  The fallback of \<^verbatim>\<open>handleSubmit\<close> after a unique violation:
  \<^verbatim>\<open>update({ initial_offer: initialOffer, status: 'pending' })
  .eq('listing_id', listingId).eq('dealer_id', user.id)\<close>.
\<close>

definition fallback_update ::
  "policy list \<Rightarrow> uuid \<Rightarrow> timestamp \<Rightarrow> pg_error option \<Rightarrow> uuid \<Rightarrow> amount option \<Rightarrow> db
     \<Rightarrow> pg_error + negotiation list" where
  "fallback_update pols uid now fault listingId initialOffer d =
     answer fault
       (case initialOffer of
          None \<Rightarrow>
            if list_ex (reached pols uid
                  (\<lambda>n. neg_listing_id n = listingId \<and> neg_dealer_id n = uid)) (db_negotiations d)
            then Inl not_null_violation else Inr (db_negotiations d)
        | Some offer \<Rightarrow>
            db_update pols uid
              (\<lambda>n. neg_listing_id n = listingId \<and> neg_dealer_id n = uid)
              (no_column\<lparr>set_initial_offer := Some offer, set_status := Some Pending\<rparr>) now
              (db_negotiations d))"

text \<open>The insert of \<^verbatim>\<open>handleSubmit\<close>; \<open>v_id\<close> is the identifier that
  \<^verbatim>\<open>gen_random_uuid()\<close> yields. A \<^verbatim>\<open>NaN\<close> offer is sent as \<^verbatim>\<open>null\<close>.\<close>

definition offer_insert ::
  "policy list \<Rightarrow> uuid \<Rightarrow> timestamp \<Rightarrow> pg_error option \<Rightarrow> uuid \<Rightarrow> uuid \<Rightarrow> uuid
     \<Rightarrow> amount option \<Rightarrow> db \<Rightarrow> pg_error + db" where
  "offer_insert pols uid now fault v_id listingId seller initialOffer d =
     answer fault
       (case initialOffer of
          None \<Rightarrow> Inl not_null_violation
        | Some offer \<Rightarrow>
            db_insert pols uid
              \<lparr>neg_id = v_id, neg_listing_id = listingId, neg_dealer_id = uid,
               neg_seller_id = seller, neg_initial_offer = offer, neg_counter_offer = None,
               neg_status = Pending, neg_created_at = now, neg_updated_at = now\<rparr> d)"

text \<open>\<^verbatim>\<open>initialOffer <= 0\<close>; the comparison is false for \<^verbatim>\<open>NaN\<close>.\<close>

definition invalid_offer :: "amount option \<Rightarrow> bool" where
  "invalid_offer a = (case a of None \<Rightarrow> False | Some offer \<Rightarrow> offer \<le> 0)"

text \<open>The part of \<^verbatim>\<open>handleSubmit\<close> that follows the answer of the insert.\<close>

definition after_insert ::
  "policy list \<Rightarrow> uuid \<Rightarrow> timestamp \<Rightarrow> submit_faults \<Rightarrow> uuid \<Rightarrow> uuid \<Rightarrow> listing
     \<Rightarrow> pg_error + db \<Rightarrow> db \<Rightarrow> dialog \<Rightarrow> db \<times> dialog" where
  "after_insert pols uid now faults v_id listingId listingData inserted d dlg =
     (case inserted of
        Inr d' \<Rightarrow> (d', submit_done ''Your offer has been sent to the seller'' dlg)
      | Inl err \<Rightarrow>
          if code err = ''23503'' then
            (d, submit_failed
                  ''There was a reference error. Make sure the listing still exists.'' dlg)
          else if code err = ''23505'' then
            (case fallback_update pols uid now (update_fault faults) listingId
                    (d_initialOffer dlg) d of
               Inl updateError \<Rightarrow> (d, submit_failed (message updateError) dlg)
             | Inr rows \<Rightarrow>
                 (d\<lparr>db_negotiations := rows\<rparr>,
                  submit_done ''Your offer has been sent to the seller'' dlg))
          else
            (case answer (rpc_fault faults)
                    (rpc ''insert_negotiation_with_seller'' uid listingId uid
                       (d_initialOffer dlg) (l_seller_id listingData) v_id now d) of
               Inl rpcError \<Rightarrow> (d, submit_failed (message err) dlg)
             | Inr r \<Rightarrow>
                 (snd r,
                  submit_done ''Your offer has been sent to the seller (via fallback method)''
                    dlg)))"

definition handleSubmit ::
  "policy list \<Rightarrow> uuid option \<Rightarrow> timestamp \<Rightarrow> submit_faults \<Rightarrow> uuid \<Rightarrow> uuid \<Rightarrow> db \<times> dialog
     \<Rightarrow> db \<times> dialog" where
  "handleSubmit pols user now faults v_id listingId s =
     (let d = fst s; dlg = snd s in
      case user of
        None \<Rightarrow>
          (d, dlg\<lparr>d_toasts := d_toasts dlg @
                    [\<lparr>title = ''Authentication Required'',
                      description = ''Please sign in to make an offer'',
                      destructive = True\<rparr>]\<rparr>)
      | Some uid \<Rightarrow>
          if invalid_offer (d_initialOffer dlg) then
            (d, dlg\<lparr>d_toasts := d_toasts dlg @
                      [\<lparr>title = ''Invalid Offer'',
                        description = ''Please enter a valid offer amount'',
                        destructive = True\<rparr>]\<rparr>)
          else
            let dlg1 = dlg\<lparr>d_loading := True\<rparr> in
            (case answer (listing_fault faults) (single_listing listingId (db_scrap_listings d)) of
               Inl listingError \<Rightarrow>
                 (d, submit_failed ''Could not verify listing existence. Please try again.'' dlg1)
             | Inr listingData \<Rightarrow>
                 (case auth_fault faults of
                    Some authError \<Rightarrow>
                      (d, submit_failed ''Authentication error. Please sign in again.'' dlg1)
                  | None \<Rightarrow>
                      if auth_user_missing faults then
                        (d, submit_failed
                              ''You need to be logged in to make an offer. Please sign in.'' dlg1)
                      else
                        after_insert pols uid now faults v_id listingId listingData
                          (offer_insert pols uid now (insert_fault faults) v_id listingId
                             (l_seller_id listingData) (d_initialOffer dlg) d)
                          d dlg1)))"

text \<open>
  The two buttons under ``Accept Counter Offer?''. They are rendered only for an existing
  negotiation whose status, as the dialog holds it, is \<^verbatim>\<open>'countered'\<close>, and are
  disabled while a request is running. Each names the row by its id.
\<close>

definition counter_buttons_shown :: "dialog \<Rightarrow> negotiation option" where
  "counter_buttons_shown dlg =
     (case dialog_view dlg of
        ExistingNegotiation n \<Rightarrow>
          if neg_status n = Countered \<and> \<not> d_loading dlg then Some n else None
      | _ \<Rightarrow> None)"

definition answer_counter ::
  "neg_status \<Rightarrow> string \<Rightarrow> string \<Rightarrow> string \<Rightarrow> policy list \<Rightarrow> uuid \<Rightarrow> timestamp
     \<Rightarrow> pg_error option \<Rightarrow> db \<times> dialog \<Rightarrow> db \<times> dialog" where
  "answer_counter new_status done_title done_text fallback pols uid now fault s =
     (let d = fst s; dlg = snd s in
      case counter_buttons_shown dlg of
        None \<Rightarrow> (d, dlg)
      | Some existingNegotiation \<Rightarrow>
          (case answer fault
                  (db_update pols uid (\<lambda>n. neg_id n = neg_id existingNegotiation)
                     (no_column\<lparr>set_status := Some new_status\<rparr>) now (db_negotiations d)) of
             Inl e \<Rightarrow>
               (d, dlg\<lparr>d_toasts := d_toasts dlg @ [error_toast e fallback],
                       d_loading := False\<rparr>)
           | Inr rows \<Rightarrow>
               (d\<lparr>db_negotiations := rows\<rparr>,
                dlg\<lparr>d_toasts := d_toasts dlg @ [info_toast done_title done_text],
                    d_open := False, d_loading := False\<rparr>)))"

definition acceptCounterOffer ::
  "policy list \<Rightarrow> uuid \<Rightarrow> timestamp \<Rightarrow> pg_error option \<Rightarrow> db \<times> dialog \<Rightarrow> db \<times> dialog" where
  "acceptCounterOffer =
     answer_counter Accepted ''Counter Offer Accepted''
       ''You have accepted the seller's counter offer'' ''Failed to accept the counter offer''"

definition declineCounterOffer ::
  "policy list \<Rightarrow> uuid \<Rightarrow> timestamp \<Rightarrow> pg_error option \<Rightarrow> db \<times> dialog \<Rightarrow> db \<times> dialog" where
  "declineCounterOffer =
     answer_counter Rejected ''Counter Offer Declined''
       ''You have declined the seller's counter offer'' ''Failed to decline the counter offer''"

section \<open>Settled negotiations\<close>

text \<open>Between two states of the table, no negotiation that was accepted or rejected is
  pending afterwards; rows keep their place and their id.\<close>

definition never_reopened :: "negotiation list \<Rightarrow> negotiation list \<Rightarrow> bool" where
  "never_reopened rows rows' =
     (length rows \<le> length rows'
      \<and> (\<forall>i < length rows.
            neg_id (rows' ! i) = neg_id (rows ! i)
            \<and> (neg_status (rows ! i) = Accepted \<or> neg_status (rows ! i) = Rejected
                 \<longrightarrow> neg_status (rows' ! i) \<noteq> Pending)))"

lemma never_reopened_refl: "never_reopened rows rows"
  by (simp add: never_reopened_def)

lemma never_reopened_append: "never_reopened rows (rows @ [n])"
  by (simp add: never_reopened_def nth_append)

lemma answer_Inr: "answer fault r = Inr x \<Longrightarrow> r = Inr x"
  by (simp add: answer_def split: option.splits)

lemma db_update_never_reopened:
  assumes "db_update pols uid wh u now rows = Inr rows'" and "set_status u \<noteq> Some Pending"
  shows "never_reopened rows rows'"
proof -
  have "neg_id (rows' ! i) = neg_id (rows ! i)
      \<and> (neg_status (rows ! i) = Accepted \<or> neg_status (rows ! i) = Rejected
           \<longrightarrow> neg_status (rows' ! i) \<noteq> Pending)" if "i < length rows" for i
  proof (cases "reached pols uid wh (rows ! i)")
    case True
    with db_update_nth [OF assms(1) that] obtain n'
      where n': "set_columns u (rows ! i) = Inr n'" "rows' ! i = n'\<lparr>neg_updated_at := now\<rparr>"
      by auto
    from set_columns_keeps(1,5) [OF n'(1)] n'(2) assms(2) show ?thesis
      by (auto split: option.splits)
  next
    case False
    with db_update_nth [OF assms(1) that] show ?thesis by simp
  qed
  with db_update_length [OF assms(1)] show ?thesis
    by (simp add: never_reopened_def)
qed

lemma accept_request_never_reopened:
  "accept_request pols uid now fault negotiationId d = Inr rows
   \<Longrightarrow> never_reopened (db_negotiations d) rows"
  unfolding accept_request_def
  by (drule answer_Inr) (erule db_update_never_reopened, simp add: no_column_def)

lemma reject_request_never_reopened:
  "reject_request pols uid now fault negotiationId d = Inr rows
   \<Longrightarrow> never_reopened (db_negotiations d) rows"
  unfolding reject_request_def
  by (drule answer_Inr) (erule db_update_never_reopened, simp add: no_column_def)

lemma counter_request_never_reopened:
  "counter_request pols uid now fault negotiationId offerAmount d = Inr rows
   \<Longrightarrow> never_reopened (db_negotiations d) rows"
  unfolding counter_request_def
  by (drule answer_Inr) (erule db_update_never_reopened, simp add: no_column_def)

lemma handleAcceptOffer_never_reopened:
  "never_reopened (db_negotiations d)
     (db_negotiations (fst (handleAcceptOffer pols uid now fault negotiationId (d, m))))"
  by (auto simp add: handleAcceptOffer_def Let_def never_reopened_refl
      accept_request_never_reopened split: option.splits sum.splits)

lemma handleRejectOffer_never_reopened:
  "never_reopened (db_negotiations d)
     (db_negotiations (fst (handleRejectOffer pols uid now fault negotiationId (d, m))))"
  by (auto simp add: handleRejectOffer_def Let_def never_reopened_refl
      reject_request_never_reopened split: option.splits sum.splits)

lemma handleCounterOffer_never_reopened:
  "never_reopened (db_negotiations d)
     (db_negotiations (fst (handleCounterOffer pols uid now fault negotiationId (d, m))))"
  by (auto simp add: handleCounterOffer_def Let_def never_reopened_refl
      counter_request_never_reopened split: option.splits sum.splits)

lemma answer_counter_never_reopened:
  assumes "new_status \<noteq> Pending"
  shows "never_reopened (db_negotiations d)
     (db_negotiations (fst (answer_counter new_status t1 t2 t3 pols uid now fault (d, dlg))))"
proof (cases "counter_buttons_shown dlg")
  case None
  then show ?thesis by (simp add: answer_counter_def Let_def never_reopened_refl)
next
  case (Some n)
  show ?thesis
  proof (cases "answer fault (db_update pols uid (\<lambda>r. neg_id r = neg_id n)
                   (no_column\<lparr>set_status := Some new_status\<rparr>) now (db_negotiations d))")
    case (Inl e)
    with Some show ?thesis by (simp add: answer_counter_def Let_def never_reopened_refl)
  next
    case (Inr rows)
    from answer_Inr [OF Inr] have "never_reopened (db_negotiations d) rows"
      by (rule db_update_never_reopened) (simp add: assms no_column_def)
    with Some Inr show ?thesis by (simp add: answer_counter_def Let_def)
  qed
qed

lemma rpc_undefined:
  "rpc ''insert_negotiation_with_seller'' uid l dl offer seller v_id now d
     = Inl \<lparr>code = ''PGRST202'', message = ''Could not find the function''\<rparr>"
  by (simp add: rpc_def)

lemma db_insert_appends:
  "db_insert pols uid n d = Inr d' \<Longrightarrow>
   \<exists>n'. column_types n = Inr n' \<and> d' = d\<lparr>db_negotiations := db_negotiations d @ [n']\<rparr>"
  by (auto simp add: db_insert_def split: if_splits option.splits sum.splits)

lemma offer_insert_appends:
  "offer_insert pols uid now fault v_id listingId seller offer d = Inr d'
   \<Longrightarrow> \<exists>n. d' = d\<lparr>db_negotiations := db_negotiations d @ [n]\<rparr>
         \<and> neg_listing_id n = listingId \<and> neg_dealer_id n = uid \<and> neg_status n = Pending
         \<and> neg_id n = v_id"
  unfolding offer_insert_def
  by (drule answer_Inr)
    (auto split: option.splits dest!: db_insert_appends simp add: column_types_keeps)

text \<open>The table of the SQL files has the primary key as its only unique constraint, and
  the insert of \<^verbatim>\<open>handleSubmit\<close> leaves the id to \<^verbatim>\<open>gen_random_uuid()\<close>: with an id
  that no row has, the table does not answer the insert with a unique violation.\<close>

lemma db_insert_not_unique:
  assumes "neg_id n \<notin> neg_id ` set (db_negotiations d)" and "db_insert pols uid n d = Inl e"
  shows "code e \<noteq> ''23505''"
proof (cases "column_types n")
  case (Inl e')
  with assms(2) have "e = numeric_overflow"
    by (auto simp add: db_insert_def dest: column_types_error)
  then show ?thesis by (simp add: numeric_overflow_def)
next
  case (Inr n')
  from column_types_keeps(1) [OF Inr] assms(1)
  have "\<not> list_ex (\<lambda>m. neg_id m = neg_id n') (db_negotiations d)"
    by (force simp add: list_ex_iff image_iff)
  with assms(2) Inr have "e = rls_violation \<or> e = foreign_key_violation"
    by (auto simp add: db_insert_def constraint_error_def split: if_splits)
  then show ?thesis by (auto simp add: rls_violation_def foreign_key_violation_def)
qed

lemma offer_insert_not_unique:
  assumes "v_id \<notin> neg_id ` set (db_negotiations d)"
    and "\<forall>e. fault = Some e \<longrightarrow> code e \<noteq> ''23505''"
    and "offer_insert pols uid now fault v_id listingId seller offer d = Inl e"
  shows "code e \<noteq> ''23505''"
proof (cases fault)
  case (Some e')
  with assms(2,3) show ?thesis by (simp add: offer_insert_def answer_def)
next
  case None
  show ?thesis
  proof (cases offer)
    case no_offer: None
    with None assms(3) have "e = not_null_violation"
      by (simp add: offer_insert_def answer_def)
    then show ?thesis by (simp add: not_null_violation_def)
  next
    case (Some a)
    with None assms(3) have "db_insert pols uid
        \<lparr>neg_id = v_id, neg_listing_id = listingId, neg_dealer_id = uid,
         neg_seller_id = seller, neg_initial_offer = a, neg_counter_offer = None,
         neg_status = Pending, neg_created_at = now, neg_updated_at = now\<rparr> d = Inl e"
      by (simp add: offer_insert_def answer_def)
    with assms(1) show ?thesis by (intro db_insert_not_unique) simp_all
  qed
qed

text \<open>An offer whose insert is not answered with a unique violation leaves every
  existing row as it is.\<close>

lemma after_insert_keeps_rows:
  assumes "\<And>e. inserted = Inl e \<Longrightarrow> code e \<noteq> ''23505''"
    and "\<And>d'. inserted = Inr d' \<Longrightarrow> \<exists>n. d' = d\<lparr>db_negotiations := db_negotiations d @ [n]\<rparr>"
  shows "\<exists>new. db_negotiations
            (fst (after_insert pols uid now faults v_id listingId listingData inserted d dlg))
           = db_negotiations d @ new"
proof (cases inserted)
  case (Inl e)
  with assms(1) have "code e \<noteq> ''23505''" by simp
  with Inl show ?thesis
    by (simp add: after_insert_def rpc_undefined answer_def split: option.splits)
next
  case (Inr d')
  with assms(2) obtain n where "d' = d\<lparr>db_negotiations := db_negotiations d @ [n]\<rparr>"
    by blast
  with Inr show ?thesis by (simp add: after_insert_def)
qed

lemma handleSubmit_keeps_rows:
  assumes "\<And>uid seller e. user = Some uid \<Longrightarrow>
      offer_insert pols uid now (insert_fault faults) v_id listingId seller
        (d_initialOffer dlg) d = Inl e \<Longrightarrow> code e \<noteq> ''23505''"
  shows "\<exists>new. db_negotiations (fst (handleSubmit pols user now faults v_id listingId (d, dlg)))
           = db_negotiations d @ new"
proof (cases user)
  case None
  then show ?thesis by (simp add: handleSubmit_def Let_def)
next
  case (Some uid)
  have step: "\<exists>new. db_negotiations
            (fst (after_insert pols uid now faults v_id listingId listingData
               (offer_insert pols uid now (insert_fault faults) v_id listingId
                  (l_seller_id listingData) (d_initialOffer dlg) d) d dlg1))
           = db_negotiations d @ new" for listingData dlg1
    by (rule after_insert_keeps_rows) (use assms [OF Some] offer_insert_appends in blast)+
  from Some step show ?thesis
    by (auto simp add: handleSubmit_def Let_def split: sum.splits option.splits)
qed

lemma never_reopened_extend: "never_reopened rows (rows @ new)"
  by (simp add: never_reopened_def nth_append)

definition example_dialog :: dialog where
  "example_dialog = (initial_dialog 200)\<lparr>d_open := True, d_checkingExisting := False\<rparr>"

definition statuses :: "db \<Rightarrow> (uuid \<times> neg_status) list" where
  "statuses d = map (\<lambda>n. (neg_id n, neg_status n)) (db_negotiations d)"

text \<open>
  Claim C1, as stated, at a concrete run. The negotiation 12 on the listing 3 of the
  seller 8 is accepted. The seller opens the page of the listing, where the manager is
  given the listing: it lists the negotiations 13 (rejected) and 12 (accepted) with the
  three buttons. He presses Reject on the negotiation 12 and it is rejected; had he
  pressed the counter-offer button, it would be countered. The claim says that accepted is
  a terminal state.
\<close>

theorem seller_rejects_accepted:
  "map (\<lambda>n. (neg_id n, neg_status n))
     (m_negotiations (fetchNegotiations fix_negotiations_sql (Some 8) (Some 3) None None
        example_db empty_manager))
     = [(13, Rejected), (12, Accepted)]
   \<and> statuses example_db = [(10, Pending), (11, Countered), (12, Accepted), (13, Rejected)]
   \<and> statuses (fst (handleRejectOffer fix_negotiations_sql 8 2000 None 12
        (example_db,
         fetchNegotiations fix_negotiations_sql (Some 8) (Some 3) None None example_db
           empty_manager)))
     = [(10, Pending), (11, Countered), (12, Rejected), (13, Rejected)]
   \<and> statuses (fst (handleCounterOffer fix_negotiations_sql 8 2000 None 12
        (example_db,
         fetchNegotiations fix_negotiations_sql (Some 8) (Some 3) None None example_db
           empty_manager)))
     = [(10, Pending), (11, Countered), (12, Countered), (13, Rejected)]"
  by (simp add: statuses_def fetchNegotiations_def manager_query_def newest_first_def
      db_select_def handleRejectOffer_def reject_request_def handleCounterOffer_def
      counter_request_def invalid_amount_def answer_def db_update_def update_row_def
      set_columns_status set_columns_counter_offer numeric_10_2_90 reached_def using_ok_def
      check_ok_def fix_negotiations_sql_def example_db_def example_negotiations_def
      example_negotiation_def empty_manager_def Let_def)

text \<open>
  Claim C1, amended. No negotiation that is accepted or rejected is pending after the
  seller's accept, reject or counter, or after the buyer's accept or decline of a counter
  offer. The same holds of an offer submission, which leaves every existing row as it is,
  when the id generated for the new row is the id of no row and the insert is not
  answered, from outside the table of the SQL files, with a unique violation: on that
  table the insert with such an id is not answered with a unique violation, so the
  fallback update does not run.
\<close>

theorem settled_never_pending:
  "never_reopened (db_negotiations d)
     (db_negotiations (fst (handleAcceptOffer pols uid now fault negotiationId (d, m))))
   \<and> never_reopened (db_negotiations d)
     (db_negotiations (fst (handleRejectOffer pols uid now fault negotiationId (d, m))))
   \<and> never_reopened (db_negotiations d)
     (db_negotiations (fst (handleCounterOffer pols uid now fault negotiationId (d, m))))
   \<and> never_reopened (db_negotiations d)
     (db_negotiations (fst (acceptCounterOffer pols uid now fault (d, dlg))))
   \<and> never_reopened (db_negotiations d)
     (db_negotiations (fst (declineCounterOffer pols uid now fault (d, dlg))))
   \<and> (v_id \<notin> neg_id ` set (db_negotiations d)
        \<and> (\<forall>e. insert_fault faults = Some e \<longrightarrow> code e \<noteq> ''23505'')
        \<longrightarrow> (\<exists>new. db_negotiations
                     (fst (handleSubmit pols user now faults v_id listingId (d, dlg)))
                   = db_negotiations d @ new)
            \<and> never_reopened (db_negotiations d)
                (db_negotiations
                   (fst (handleSubmit pols user now faults v_id listingId (d, dlg)))))
   \<and> (v_id \<notin> neg_id ` set (db_negotiations d)
        \<longrightarrow> (\<forall>e. offer_insert pols uid now None v_id listingId seller offer d = Inl e
                  \<longrightarrow> code e \<noteq> ''23505''))"
proof -
  have dialog_accept: "never_reopened (db_negotiations d)
     (db_negotiations (fst (acceptCounterOffer pols uid now fault (d, dlg))))"
    unfolding acceptCounterOffer_def by (rule answer_counter_never_reopened) simp
  have dialog_decline: "never_reopened (db_negotiations d)
     (db_negotiations (fst (declineCounterOffer pols uid now fault (d, dlg))))"
    unfolding declineCounterOffer_def by (rule answer_counter_never_reopened) simp
  have submit: "v_id \<notin> neg_id ` set (db_negotiations d)
        \<and> (\<forall>e. insert_fault faults = Some e \<longrightarrow> code e \<noteq> ''23505'')
        \<longrightarrow> (\<exists>new. db_negotiations
                     (fst (handleSubmit pols user now faults v_id listingId (d, dlg)))
                   = db_negotiations d @ new)
            \<and> never_reopened (db_negotiations d)
                (db_negotiations
                   (fst (handleSubmit pols user now faults v_id listingId (d, dlg))))"
  proof (intro impI, elim conjE)
    assume fresh: "v_id \<notin> neg_id ` set (db_negotiations d)"
      and fault: "\<forall>e. insert_fault faults = Some e \<longrightarrow> code e \<noteq> ''23505''"
    have keeps: "\<exists>new. db_negotiations
        (fst (handleSubmit pols user now faults v_id listingId (d, dlg)))
        = db_negotiations d @ new"
      by (rule handleSubmit_keeps_rows) (rule offer_insert_not_unique [OF fresh fault])
    then have "never_reopened (db_negotiations d)
        (db_negotiations (fst (handleSubmit pols user now faults v_id listingId (d, dlg))))"
      by (auto simp add: never_reopened_extend)
    with keeps show "(\<exists>new. db_negotiations
                     (fst (handleSubmit pols user now faults v_id listingId (d, dlg)))
                   = db_negotiations d @ new)
            \<and> never_reopened (db_negotiations d)
                (db_negotiations
                   (fst (handleSubmit pols user now faults v_id listingId (d, dlg))))"
      by simp
  qed
  have insert: "v_id \<notin> neg_id ` set (db_negotiations d)
        \<longrightarrow> (\<forall>e. offer_insert pols uid now None v_id listingId seller offer d = Inl e
                  \<longrightarrow> code e \<noteq> ''23505'')"
    using offer_insert_not_unique [where fault = None] by blast
  show ?thesis
    by (intro conjI)
      (rule handleAcceptOffer_never_reopened handleRejectOffer_never_reopened
        handleCounterOffer_never_reopened dialog_accept dialog_decline submit insert)+
qed

definition example_manager_12 :: manager where
  "example_manager_12 =
     \<lparr>m_negotiations = [example_negotiation 12 3 5 8 None Accepted],
      m_loading = False, m_error = None,
      m_counterOffer = (\<lambda>i. if i = 12 then Some 95 else None),
      m_processingId = None, m_toasts = []\<rparr>"

text \<open>The dealer 5 of the accepted negotiation 12 sends a new offer on the listing 3: the
  row 50 is added and the negotiation 12 stays accepted. The seller 8 counters the
  negotiation 12: it is countered, not pending.\<close>

theorem settled_never_pending_witness:
  "never_reopened (db_negotiations example_db)
     (db_negotiations (fst (handleCounterOffer rls_policies_sql 8 2000 None 12
        (example_db, example_manager_12))))
   \<and> statuses (fst (handleCounterOffer rls_policies_sql 8 2000 None 12
        (example_db, example_manager_12)))
       = [(10, Pending), (11, Countered), (12, Countered), (13, Rejected)]
   \<and> never_reopened (db_negotiations example_db)
       (db_negotiations (fst (handleSubmit rls_policies_sql (Some 5) 2000 no_faults 50 3
          (example_db, example_dialog))))
   \<and> statuses (fst (handleSubmit rls_policies_sql (Some 5) 2000 no_faults 50 3
        (example_db, example_dialog)))
       = [(10, Pending), (11, Countered), (12, Accepted), (13, Rejected), (50, Pending)]"
proof -
  note inst = settled_never_pending [where pols = rls_policies_sql and uid = 8 and now = 2000
      and fault = None and negotiationId = 12 and d = example_db and m = example_manager_12
      and dlg = example_dialog and faults = no_faults and v_id = 50 and listingId = 3
      and user = "Some 5"]
  have counter: "never_reopened (db_negotiations example_db)
     (db_negotiations (fst (handleCounterOffer rls_policies_sql 8 2000 None 12
        (example_db, example_manager_12))))"
    using inst by blast
  have run: "statuses (fst (handleCounterOffer rls_policies_sql 8 2000 None 12
        (example_db, example_manager_12)))
       = [(10, Pending), (11, Countered), (12, Countered), (13, Rejected)]"
    by (simp add: statuses_def handleCounterOffer_def counter_request_def answer_def
        invalid_amount_def db_update_def update_row_def set_columns_counter_offer
        numeric_10_2_95 reached_def using_ok_def check_ok_def rls_policies_sql_def
        example_db_def example_negotiations_def example_negotiation_def
        example_manager_12_def Let_def)
  have fresh: "(50::uuid) \<notin> neg_id ` set (db_negotiations example_db)"
    by (simp add: example_db_def example_negotiations_def example_negotiation_def)
  have fault: "\<forall>e. insert_fault no_faults = Some e \<longrightarrow> code e \<noteq> ''23505''"
    by (simp add: no_faults_def)
  from inst fresh fault
  have submit: "never_reopened (db_negotiations example_db)
       (db_negotiations (fst (handleSubmit rls_policies_sql (Some 5) 2000 no_faults 50 3
          (example_db, example_dialog))))"
    by blast
  have sent: "statuses (fst (handleSubmit rls_policies_sql (Some 5) 2000 no_faults 50 3
        (example_db, example_dialog)))
       = [(10, Pending), (11, Countered), (12, Accepted), (13, Rejected), (50, Pending)]"
    by (simp add: statuses_def handleSubmit_def after_insert_def offer_insert_def answer_def
        no_faults_def single_listing_def invalid_offer_def example_dialog_def
        initial_dialog_def db_insert_def column_types_def numeric_10_2_180 check_ok_def
        constraint_error_def rls_policies_sql_def example_db_def example_negotiations_def
        example_negotiation_def example_listings_def example_listing_def Let_def)
  from counter run submit sent show ?thesis by blast
qed

section \<open>Pending negotiations of a listing and a dealer\<close>

definition pending_for :: "uuid \<Rightarrow> uuid \<Rightarrow> negotiation list \<Rightarrow> negotiation list" where
  "pending_for l dealer rows =
     filter (\<lambda>n. neg_listing_id n = l \<and> neg_dealer_id n = dealer \<and> neg_status n = Pending) rows"

definition at_most_one_pending :: "negotiation list \<Rightarrow> bool" where
  "at_most_one_pending rows = (\<forall>l dealer. length (pending_for l dealer rows) \<le> 1)"

text \<open>
  Claim C2, as stated, at a concrete run. The dealer 5 has the pending negotiation 10 on
  the listing 1. He opens the dialog; the request of \<^verbatim>\<open>checkExistingNegotiation\<close>
  fails, the error is only logged, and the dialog shows the offer form. He sends an offer:
  the insert goes through, since the table has no constraint on the pair, and there are two
  pending negotiations of the dealer 5 on the listing 1. The claim says a second one cannot
  be created.
\<close>

theorem second_pending_negotiation:
  "length (pending_for 1 5 (db_negotiations example_db)) = 1
   \<and> dialog_view (checkExistingNegotiation rls_policies_sql (Some 5) 1 (Some network_down)
        example_db (opened_dialog 200)) = OfferForm
   \<and> map neg_id (pending_for 1 5 (db_negotiations (fst
        (handleSubmit rls_policies_sql (Some 5) 2000 no_faults 50 1
           (example_db,
            checkExistingNegotiation rls_policies_sql (Some 5) 1 (Some network_down)
              example_db (opened_dialog 200)))))) = [10, 50]"
  by (simp add: pending_for_def dialog_view_def checkExistingNegotiation_def answer_def
      opened_dialog_def initial_dialog_def handleSubmit_def after_insert_def offer_insert_def no_faults_def
      single_listing_def invalid_offer_def db_insert_def column_types_def numeric_10_2_180
      check_ok_def constraint_error_def
      rls_policies_sql_def example_db_def example_negotiations_def example_negotiation_def
      example_listings_def example_listing_def submit_done_def Let_def)

lemma newest_first_empty: "newest_first rows = [] \<longleftrightarrow> rows = []"
proof -
  have "length (newest_first rows) = length rows"
    by (simp add: newest_first_def)
  then show ?thesis by (metis length_0_conv)
qed

text \<open>When the check went through and the dialog shows the offer form, the table has no
  negotiation of the user as dealer on the listing.\<close>

lemma check_found_none:
  assumes "source_policies pols"
    and "dialog_view (checkExistingNegotiation pols (Some uid) listingId None d dlg0) = OfferForm"
  shows "filter (\<lambda>n. neg_listing_id n = listingId \<and> neg_dealer_id n = uid) (db_negotiations d)
           = []"
proof -
  let ?sel = "db_select pols uid (\<lambda>n. neg_listing_id n = listingId \<and> neg_dealer_id n = uid)
                (db_negotiations d)"
  have "take 1 (newest_first ?sel) = []"
    using assms(2)
    by (auto simp add: dialog_view_def checkExistingNegotiation_def answer_def
        split: if_splits option.splits list.splits)
  then have "newest_first ?sel = []" by simp
  then have "?sel = []" by (simp add: newest_first_empty)
  moreover have "?sel = filter (\<lambda>n. neg_listing_id n = listingId \<and> neg_dealer_id n = uid)
      (db_negotiations d)"
    unfolding db_select_def using assms(1)
    by (intro filter_cong refl) (auto simp add: select_using)
  ultimately show ?thesis by simp
qed

lemma db_update_nothing_reached:
  assumes "\<forall>n \<in> set rows. \<not> reached pols uid wh n"
  shows "db_update pols uid wh u now rows = Inr rows"
proof -
  have "all_rows (map (update_row pols uid wh u now) rows) = Inr (map (\<lambda>n. n) rows)"
    using assms by (intro all_rows_map) (simp add: update_row_def)
  then show ?thesis by (simp add: db_update_def)
qed

lemma fallback_update_nothing:
  assumes "filter (\<lambda>n. neg_listing_id n = listingId \<and> neg_dealer_id n = uid) (db_negotiations d)
             = []"
    and "fallback_update pols uid now fault listingId offer d = Inr rows"
  shows "rows = db_negotiations d"
proof -
  have none: "\<forall>n \<in> set (db_negotiations d).
      \<not> reached pols uid (\<lambda>n. neg_listing_id n = listingId \<and> neg_dealer_id n = uid) n"
    using assms(1) by (auto simp add: reached_def filter_empty_conv)
  show ?thesis
  proof (cases offer)
    case None
    with assms(2) none show ?thesis
      by (auto simp add: fallback_update_def list_ex_iff dest!: answer_Inr split: if_splits)
  next
    case (Some a)
    with assms(2) have "db_update pols uid
        (\<lambda>n. neg_listing_id n = listingId \<and> neg_dealer_id n = uid)
        (no_column\<lparr>set_initial_offer := Some a, set_status := Some Pending\<rparr>) now
        (db_negotiations d)
        = Inr rows"
      by (auto simp add: fallback_update_def dest!: answer_Inr)
    with db_update_nothing_reached [OF none] show ?thesis by simp
  qed
qed

text \<open>What an offer submission can do to the table: nothing, one new pending row of the
  user on the listing, or the fallback update.\<close>

lemma after_insert_table:
  assumes "\<And>d'. inserted = Inr d' \<Longrightarrow>
      \<exists>n. d' = d\<lparr>db_negotiations := db_negotiations d @ [n]\<rparr>
          \<and> neg_listing_id n = listingId \<and> neg_dealer_id n = uid"
  shows "db_negotiations (fst (after_insert pols uid now faults v_id listingId listingData
        inserted d dlg)) = db_negotiations d
    \<or> (\<exists>n. db_negotiations (fst (after_insert pols uid now faults v_id listingId listingData
        inserted d dlg)) = db_negotiations d @ [n]
         \<and> neg_listing_id n = listingId \<and> neg_dealer_id n = uid)
    \<or> (\<exists>rows. fallback_update pols uid now (update_fault faults) listingId
           (d_initialOffer dlg) d = Inr rows
         \<and> db_negotiations (fst (after_insert pols uid now faults v_id listingId listingData
        inserted d dlg)) = rows)"
proof (cases inserted)
  case (Inl e)
  then show ?thesis
    by (auto simp add: after_insert_def rpc_undefined answer_def
        split: option.splits sum.splits)
next
  case (Inr d')
  with assms obtain n where "d' = d\<lparr>db_negotiations := db_negotiations d @ [n]\<rparr>"
    "neg_listing_id n = listingId" "neg_dealer_id n = uid"
    by blast
  with Inr show ?thesis by (simp add: after_insert_def)
qed

lemma handleSubmit_table:
  "db_negotiations (fst (handleSubmit pols (Some uid) now faults v_id listingId (d, dlg)))
     = db_negotiations d
   \<or> (\<exists>n. db_negotiations (fst (handleSubmit pols (Some uid) now faults v_id listingId (d, dlg)))
           = db_negotiations d @ [n]
         \<and> neg_listing_id n = listingId \<and> neg_dealer_id n = uid)
   \<or> (\<exists>rows. fallback_update pols uid now (update_fault faults) listingId
           (d_initialOffer dlg) d = Inr rows
         \<and> db_negotiations (fst (handleSubmit pols (Some uid) now faults v_id listingId (d, dlg)))
           = rows)"
proof -
  have step: "db_negotiations (fst (after_insert pols uid now faults v_id listingId listingData
        (offer_insert pols uid now (insert_fault faults) v_id listingId seller offer d)
        d dlg1)) = db_negotiations d
    \<or> (\<exists>n. db_negotiations (fst (after_insert pols uid now faults v_id listingId listingData
        (offer_insert pols uid now (insert_fault faults) v_id listingId seller offer d)
        d dlg1)) = db_negotiations d @ [n]
         \<and> neg_listing_id n = listingId \<and> neg_dealer_id n = uid)
    \<or> (\<exists>rows. fallback_update pols uid now (update_fault faults) listingId
           (d_initialOffer dlg1) d = Inr rows
         \<and> db_negotiations (fst (after_insert pols uid now faults v_id listingId listingData
        (offer_insert pols uid now (insert_fault faults) v_id listingId seller offer d)
        d dlg1)) = rows)"
    for listingData dlg1 seller offer
    by (rule after_insert_table) (use offer_insert_appends in blast)
  show ?thesis
  proof (cases "invalid_offer (d_initialOffer dlg)")
    case True
    then show ?thesis by (simp add: handleSubmit_def Let_def)
  next
    case valid: False
    show ?thesis
    proof (cases "answer (listing_fault faults)
                    (single_listing listingId (db_scrap_listings d))")
      case (Inl e)
      with valid show ?thesis by (simp add: handleSubmit_def Let_def)
    next
      case (Inr listingData)
      show ?thesis
      proof (cases "auth_fault faults = None \<and> \<not> auth_user_missing faults")
        case False
        with valid Inr show ?thesis
          by (auto simp add: handleSubmit_def Let_def split: option.splits)
      next
        case True
        with valid Inr
        have "handleSubmit pols (Some uid) now faults v_id listingId (d, dlg)
          = after_insert pols uid now faults v_id listingId listingData
              (offer_insert pols uid now (insert_fault faults) v_id listingId
                 (l_seller_id listingData) (d_initialOffer dlg) d)
              d (dlg\<lparr>d_loading := True\<rparr>)"
          by (simp add: handleSubmit_def Let_def)
        with step [of listingData "l_seller_id listingData" "d_initialOffer dlg"
            "dlg\<lparr>d_loading := True\<rparr>"]
        show ?thesis by simp
      qed
    qed
  qed
qed

lemma pending_for_append:
  "pending_for l dealer (rows @ [n]) =
     pending_for l dealer rows @
       (if neg_listing_id n = l \<and> neg_dealer_id n = dealer \<and> neg_status n = Pending
        then [n] else [])"
  by (simp add: pending_for_def)

lemma pending_for_none:
  assumes "filter (\<lambda>n. neg_listing_id n = l \<and> neg_dealer_id n = dealer) rows = []"
  shows "pending_for l dealer rows = []"
  using assms by (auto simp add: pending_for_def filter_empty_conv)

text \<open>
  Claim C2, amended. The table has no constraint on the pair (listing, dealer), and
  \<^verbatim>\<open>handleSubmit\<close> inserts without looking at the table. When the check of the dialog
  went through on the table as it is now and the dialog shows the offer form, an offer
  submission keeps, for every listing and dealer, at most one pending negotiation if that
  held before.
\<close>

theorem offer_after_check:
  assumes "source_policies pols"
    and "at_most_one_pending (db_negotiations d)"
    and "dialog_view (checkExistingNegotiation pols (Some uid) listingId None d dlg0) = OfferForm"
  shows "at_most_one_pending (db_negotiations (fst
           (handleSubmit pols (Some uid) now faults v_id listingId
              (d, checkExistingNegotiation pols (Some uid) listingId None d dlg0))))"
proof -
  let ?dlg = "checkExistingNegotiation pols (Some uid) listingId None d dlg0"
  let ?rows' = "db_negotiations (fst (handleSubmit pols (Some uid) now faults v_id listingId
      (d, ?dlg)))"
  note none = check_found_none [OF assms(1) assms(3)]
  from handleSubmit_table [of pols uid now faults v_id listingId d ?dlg]
  consider (same) "?rows' = db_negotiations d"
    | (new) n where "?rows' = db_negotiations d @ [n]" "neg_listing_id n = listingId"
        "neg_dealer_id n = uid"
    | (fallback) rows where "fallback_update pols uid now (update_fault faults) listingId
        (d_initialOffer ?dlg) d = Inr rows" "?rows' = rows"
    by blast
  then show ?thesis
  proof cases
    case same
    with assms(2) show ?thesis by simp
  next
    case new
    have "length (pending_for l dealer (db_negotiations d @ [n])) \<le> 1" for l dealer
    proof (cases "l = listingId \<and> dealer = uid")
      case True
      with pending_for_none [OF none] show ?thesis
        by (simp add: pending_for_append)
    next
      case False
      with new(2,3) have "pending_for l dealer (db_negotiations d @ [n])
          = pending_for l dealer (db_negotiations d)"
        by (auto simp add: pending_for_append)
      with assms(2) show ?thesis by (simp add: at_most_one_pending_def)
    qed
    with new(1) show ?thesis by (simp add: at_most_one_pending_def)
  next
    case fallback
    from fallback_update_nothing [OF none fallback(1)] fallback(2) assms(2)
    show ?thesis by simp
  qed
qed

lemma example_at_most_one_pending: "at_most_one_pending (db_negotiations example_db)"
  by (simp add: at_most_one_pending_def pending_for_def example_db_def
      example_negotiations_def example_negotiation_def)

lemma example_check_found_none:
  "dialog_view (checkExistingNegotiation rls_policies_sql (Some 5) 2 None example_db
     (opened_dialog 200)) = OfferForm"
  by (simp add: dialog_view_def checkExistingNegotiation_def answer_def opened_dialog_def initial_dialog_def
      db_select_def newest_first_def example_db_def example_negotiations_def
      example_negotiation_def)

theorem offer_after_check_witness:
  "at_most_one_pending (db_negotiations example_db)
   \<and> dialog_view (checkExistingNegotiation rls_policies_sql (Some 5) 2 None example_db
        (opened_dialog 200)) = OfferForm
   \<and> at_most_one_pending (db_negotiations (fst
        (handleSubmit rls_policies_sql (Some 5) 2000 no_faults 50 2
           (example_db,
            checkExistingNegotiation rls_policies_sql (Some 5) 2 None example_db
              (opened_dialog 200)))))
   \<and> map neg_id (pending_for 2 5 (db_negotiations (fst
        (handleSubmit rls_policies_sql (Some 5) 2000 no_faults 50 2
           (example_db,
            checkExistingNegotiation rls_policies_sql (Some 5) 2 None example_db
              (opened_dialog 200)))))) = [50]"
proof -
  have run: "map neg_id (pending_for 2 5 (db_negotiations (fst
        (handleSubmit rls_policies_sql (Some 5) 2000 no_faults 50 2
           (example_db,
            checkExistingNegotiation rls_policies_sql (Some 5) 2 None example_db
              (opened_dialog 200)))))) = [50]"
    by (simp add: pending_for_def checkExistingNegotiation_def answer_def
        opened_dialog_def initial_dialog_def handleSubmit_def after_insert_def offer_insert_def no_faults_def
        single_listing_def invalid_offer_def db_insert_def column_types_def numeric_10_2_180
        check_ok_def constraint_error_def
        db_select_def newest_first_def rls_policies_sql_def example_db_def
        example_negotiations_def example_negotiation_def example_listings_def
        example_listing_def submit_done_def Let_def)
  from offer_after_check [OF source_policies_rls example_at_most_one_pending
      example_check_found_none, of 2000 no_faults 50]
    example_at_most_one_pending example_check_found_none run
  show ?thesis by blast
qed

section \<open>The transitions of a negotiation\<close>




text \<open>A statement that reaches a row whose new row cannot be formed, or fails the check,
  does not go through.\<close>

lemma db_update_fails:
  assumes "i < length rows" and "reached pols uid wh (rows ! i)"
    and "set_columns u (rows ! i) = Inl e
         \<or> (\<exists>n'. set_columns u (rows ! i) = Inr n'
               \<and> \<not> check_ok pols UPDATE uid (n'\<lparr>neg_updated_at := now\<rparr>))"
  shows "\<exists>e'. db_update pols uid wh u now rows = Inl e'"
proof (cases "db_update pols uid wh u now rows")
  case (Inl e')
  then show ?thesis by simp
next
  case (Inr rows')
  from db_update_row [OF Inr assms(1)] assms(2,3) show ?thesis
    by (auto simp add: update_row_def)
qed










text \<open>Under the policies of \<^verbatim>\<open>rls_policies.sql\<close> the new row of a dealer who is not
  the seller fails the \<^verbatim>\<open>WITH CHECK\<close> of the dealer policy when its status is accepted or
  rejected, and the seller policy does not apply: the statement fails.\<close>

lemma answer_counter_refused:
  assumes "i < length (db_negotiations d)"
    and "uid = neg_dealer_id (db_negotiations d ! i)"
    and "uid \<noteq> neg_seller_id (db_negotiations d ! i)"
    and "counter_buttons_shown dlg = Some e" and "neg_id e = neg_id (db_negotiations d ! i)"
    and "new_status = Accepted \<or> new_status = Rejected"
  shows "fst (answer_counter new_status t1 t2 t3 rls_policies_sql uid now fault (d, dlg)) = d"
proof -
  have "\<exists>e'. db_update rls_policies_sql uid (\<lambda>n. neg_id n = neg_id (db_negotiations d ! i))
      (no_column\<lparr>set_status := Some new_status\<rparr>) now (db_negotiations d) = Inl e'"
    using assms(1-3,6)
    by (intro db_update_fails [where i = i])
      (auto simp add: reached_parties source_policies_rls update_check_rls
        set_columns_status)
  with assms(4,5) show ?thesis
    by (auto simp add: answer_counter_def answer_def split: option.splits)
qed







section \<open>The status of a listing\<close>

text \<open>
  \<^verbatim>\<open>UPDATE scrap_listings SET ... WHERE ...\<close>. The SQL files define no policy and no
  trigger on \<^verbatim>\<open>scrap_listings\<close>: the rows that satisfy the condition are rewritten.
\<close>

definition update_listings ::
  "(listing \<Rightarrow> bool) \<Rightarrow> (listing \<Rightarrow> listing) \<Rightarrow> listing list \<Rightarrow> listing list" where
  "update_listings wh st ls = map (\<lambda>l. if wh l then st l else l) ls"

text \<open>\<^verbatim>\<open>.eq('seller_id', user?.id)\<close>: without a user the filter value is not a UUID and
  the request is answered with an error.\<close>

definition invalid_uuid :: pg_error where
  "invalid_uuid = \<lparr>code = ''22P02'', message = ''invalid input syntax for type uuid''\<rparr>"

definition seller_update ::
  "uuid option \<Rightarrow> pg_error option \<Rightarrow> uuid \<Rightarrow> (listing \<Rightarrow> listing) \<Rightarrow> listing list
     \<Rightarrow> pg_error + listing list" where
  "seller_update user fault listing_id st ls =
     answer fault
       (case user of
          None \<Rightarrow> Inl invalid_uuid
        | Some uid \<Rightarrow>
            Inr (update_listings (\<lambda>l. l_id l = listing_id \<and> l_seller_id l = uid) st ls))"

subsection \<open>The browse page\<close>

text \<open>The button ``Mark Sold'' of a card:
  \<^verbatim>\<open>user && listing.seller_id === user.id && listing.status === 'active'\<close>.\<close>

definition browse_mark_sold_shown :: "uuid option \<Rightarrow> listing \<Rightarrow> bool" where
  "browse_mark_sold_shown user l =
     (case user of None \<Rightarrow> False | Some uid \<Rightarrow> l_seller_id l = uid \<and> l_status l = ''active'')"

definition handleMarkAsSold :: "uuid \<Rightarrow> listings_page \<Rightarrow> listings_page" where
  "handleMarkAsSold listing_id st = st\<lparr>selectedListingId := Some listing_id, showWalletDialog := True\<rparr>"

text \<open>\<^verbatim>\<open>handleWalletSuccess\<close>, called when the wallet dialog succeeds.\<close>

definition handleWalletSuccess ::
  "uuid option \<Rightarrow> pg_error option \<Rightarrow> listing list \<times> listings_page \<Rightarrow> listing list \<times> listings_page" where
  "handleWalletSuccess user fault s =
     (let ls = fst s; st = snd s in
      case selectedListingId st of
        None \<Rightarrow> (ls, st)
      | Some sel \<Rightarrow>
          (case seller_update user fault sel (\<lambda>l. l\<lparr>l_status := ''sold''\<rparr>) ls of
             Inl e \<Rightarrow>
               (ls, st\<lparr>page_toasts := page_toasts st @
                         [\<lparr>title = ''Error'', description = ''Failed to update the listing status'',
                           destructive = True\<rparr>]\<rparr>)
           | Inr ls' \<Rightarrow>
               (ls', st\<lparr>listings := map (\<lambda>row. if l_id (fst row) = sel
                                              then ((fst row)\<lparr>l_status := ''sold''\<rparr>, snd row)
                                              else row) (listings st),
                        page_toasts := page_toasts st @
                          [info_toast ''Success''
                             ''Listing has been marked as sold and you've received your reward!'']\<rparr>)))"

subsection \<open>The page of the seller's own listings\<close>

record my_listings_page =
  ml_listings :: "listing list"
  ml_showWalletDialog :: bool
  ml_selectedListingId :: "uuid option"
  ml_toasts :: "toast list"

text \<open>A card is rendered when \<^verbatim>\<open>listing.status !== 'deleted'\<close>; on it the buttons Edit
  and ``Mark Sold'' when \<^verbatim>\<open>listing.status !== 'sold'\<close>, and the delete button always.\<close>

definition card_shown :: "listing \<Rightarrow> bool" where
  "card_shown l = (l_status l \<noteq> ''deleted'')"

definition my_mark_sold_shown :: "listing \<Rightarrow> bool" where
  "my_mark_sold_shown l = (card_shown l \<and> l_status l \<noteq> ''sold'')"

definition edit_shown :: "listing \<Rightarrow> bool" where
  "edit_shown l = (card_shown l \<and> l_status l \<noteq> ''sold'')"

definition delete_shown :: "listing \<Rightarrow> bool" where
  "delete_shown l = card_shown l"

text \<open>\<^verbatim>\<open>handleDeleteListing\<close>; \<open>confirmed\<close> is the answer to the confirmation.\<close>

definition handleDeleteListing ::
  "uuid option \<Rightarrow> bool \<Rightarrow> pg_error option \<Rightarrow> uuid \<Rightarrow> listing list \<times> my_listings_page
     \<Rightarrow> listing list \<times> my_listings_page" where
  "handleDeleteListing user confirmed fault listing_id s =
     (let ls = fst s; st = snd s in
      if \<not> confirmed then (ls, st)
      else
        (case seller_update user fault listing_id (\<lambda>l. l\<lparr>l_status := ''deleted''\<rparr>) ls of
           Inl e \<Rightarrow>
             (ls, st\<lparr>ml_toasts := ml_toasts st @
                       [\<lparr>title = ''Error'', description = ''Failed to delete the listing'',
                         destructive = True\<rparr>]\<rparr>)
         | Inr ls' \<Rightarrow>
             (ls', st\<lparr>ml_listings := filter (\<lambda>l. l_id l \<noteq> listing_id) (ml_listings st),
                      ml_toasts := ml_toasts st @
                        [info_toast ''Success'' ''Listing has been deleted successfully'']\<rparr>)))"

definition my_handleMarkAsSold :: "uuid \<Rightarrow> my_listings_page \<Rightarrow> my_listings_page" where
  "my_handleMarkAsSold listing_id st =
     st\<lparr>ml_selectedListingId := Some listing_id, ml_showWalletDialog := True\<rparr>"

definition my_handleWalletSuccess ::
  "uuid option \<Rightarrow> pg_error option \<Rightarrow> listing list \<times> my_listings_page
     \<Rightarrow> listing list \<times> my_listings_page" where
  "my_handleWalletSuccess user fault s =
     (let ls = fst s; st = snd s in
      case ml_selectedListingId st of
        None \<Rightarrow> (ls, st)
      | Some sel \<Rightarrow>
          (case seller_update user fault sel (\<lambda>l. l\<lparr>l_status := ''sold''\<rparr>) ls of
             Inl e \<Rightarrow>
               (ls, st\<lparr>ml_toasts := ml_toasts st @
                         [\<lparr>title = ''Error'', description = ''Failed to update the listing status'',
                           destructive = True\<rparr>]\<rparr>)
           | Inr ls' \<Rightarrow>
               (ls', st\<lparr>ml_listings := map (\<lambda>l. if l_id l = sel then l\<lparr>l_status := ''sold''\<rparr>
                                                 else l) (ml_listings st),
                        ml_toasts := ml_toasts st @
                          [info_toast ''Success''
                             ''Listing has been marked as sold and you've received your reward!'']\<rparr>)))"

subsection \<open>Editing a listing\<close>

record form_data =
  f_title :: string
  f_description :: "string option"
  f_listed_price :: amount
  f_quantity :: amount
  f_unit :: string
  f_material_type_id :: uuid
  f_image_url :: string

text \<open>\<^verbatim>\<open>handleSubmit\<close> of the edit page:
  \<^verbatim>\<open>update({ ...formData, updated_at: new Date().toISOString() })
  .eq('id', id).eq('seller_id', user?.id)\<close>. The result is the table and the toast.\<close>

definition edit_handleSubmit ::
  "uuid option \<Rightarrow> timestamp \<Rightarrow> pg_error option \<Rightarrow> uuid \<Rightarrow> form_data \<Rightarrow> listing list
     \<Rightarrow> listing list \<times> toast" where
  "edit_handleSubmit user now fault listing_id formData ls =
     (case seller_update user fault listing_id
             (\<lambda>l. l\<lparr>l_title := f_title formData, l_description := f_description formData,
                    l_listed_price := f_listed_price formData, l_quantity := f_quantity formData,
                    l_unit := f_unit formData, l_material_type_id := f_material_type_id formData,
                    l_image_url := Some (f_image_url formData), l_updated_at := now\<rparr>) ls of
        Inl e \<Rightarrow> (ls, \<lparr>title = ''Error'', description = ''Failed to update listing'',
                        destructive = True\<rparr>)
      | Inr ls' \<Rightarrow> (ls', info_toast ''Success'' ''Listing updated successfully''))"

subsection \<open>Requesting a pickup\<close>

text \<open>
  \<^verbatim>\<open>handleRequestPickup\<close> of the listing page, for the listing the page holds: the insert
  into \<^verbatim>\<open>transactions\<close> (a table that the SQL files do not define; only the error of the
  request matters here), then
  \<^verbatim>\<open>update({ status: 'pending_pickup' }).eq('id', listing.id)\<close>. No button of the page
  calls the function. The result is the table and the toast.
\<close>

definition handleRequestPickup ::
  "uuid option \<Rightarrow> listing option \<Rightarrow> pg_error option \<Rightarrow> pg_error option \<Rightarrow> listing list
     \<Rightarrow> listing list \<times> toast option" where
  "handleRequestPickup user held insertFault updateFault ls =
     (case user of
        None \<Rightarrow>
          (ls, Some \<lparr>title = ''Authentication Required'',
                     description = ''Please log in to request a pickup'', destructive = True\<rparr>)
      | Some uid \<Rightarrow>
          (case held of
             None \<Rightarrow> (ls, None)
           | Some l \<Rightarrow>
               (case insertFault of
                  Some e \<Rightarrow>
                    (ls, Some \<lparr>title = ''Error'',
                               description = ''Failed to request pickup. Please try again.'',
                               destructive = True\<rparr>)
                | None \<Rightarrow>
                    (case answer updateFault
                            (Inr (update_listings (\<lambda>x. l_id x = l_id l)
                               (\<lambda>x. x\<lparr>l_status := ''pending_pickup''\<rparr>) ls)) of
                       Inl e \<Rightarrow>
                         (ls, Some \<lparr>title = ''Error'',
                                    description = ''Failed to request pickup. Please try again.'',
                                    destructive = True\<rparr>)
                     | Inr ls' \<Rightarrow>
                         (ls', Some (info_toast ''Pickup Requested''
                            ''Your pickup request has been submitted successfully''))))))"

subsection \<open>Sold and deleted listings\<close>

definition listing_statuses :: "listing list \<Rightarrow> (uuid \<times> string) list" where
  "listing_statuses ls = map (\<lambda>l. (l_id l, l_status l)) ls"

definition example_my_page :: my_listings_page where
  "example_my_page = \<lparr>ml_listings = [example_listing 3 8 ''sold'' (Some (ST_MakePoint 77 28))],
     ml_showWalletDialog = False, ml_selectedListingId = None, ml_toasts = []\<rparr>"

text \<open>The browse page after it has loaded the example listings, and the seller 7 deleting
  his listing 1 on the page of his own listings afterwards.\<close>

definition example_browse_page :: listings_page where
  "example_browse_page =
     fetchData (Response (Some []) None)
       (Response (Some (select_listings [] example_listings)) None)
       (Response None None) (Response None None) empty_page"

definition example_after_delete :: "listing list" where
  "example_after_delete =
     fst (handleDeleteListing (Some 7) True None 1
       (example_listings,
        example_my_page\<lparr>ml_listings := [example_listing 1 7 ''active'' None]\<rparr>))"

text \<open>
  Claim C4, as stated, at a concrete table, in which the listing 2 is deleted and the
  listing 3 is sold. The seller 8 presses the delete button of the sold listing 3, which
  the page of his listings shows: the listing is deleted. \<^verbatim>\<open>handleRequestPickup\<close> for
  the sold listing 3 makes it \<^verbatim>\<open>pending_pickup\<close>. \<^verbatim>\<open>handleWalletSuccess\<close> of the
  seller 7 with the deleted listing 2 selected makes it sold. Last, through the buttons
  only: the seller 7 deletes his listing 1 while a browse page loaded before still holds
  it as active and shows ``Mark Sold''; pressed there, it makes the deleted listing sold.
  The claim says no operation changes a sold or deleted status.
\<close>

theorem sold_listing_changes_status:
  "listing_statuses example_listings = [(1, ''active''), (2, ''deleted''), (3, ''sold'')]
   \<and> delete_shown (example_listing 3 8 ''sold'' (Some (ST_MakePoint 77 28)))
   \<and> listing_statuses (fst (handleDeleteListing (Some 8) True None 3
        (example_listings, example_my_page)))
       = [(1, ''active''), (2, ''deleted''), (3, ''deleted'')]
   \<and> listing_statuses (fst (handleRequestPickup (Some 5)
        (Some (example_listing 3 8 ''sold'' (Some (ST_MakePoint 77 28)))) None None
        example_listings))
       = [(1, ''active''), (2, ''deleted''), (3, ''pending_pickup'')]
   \<and> listing_statuses (fst (handleWalletSuccess (Some 7) None
        (example_listings, handleMarkAsSold 2 empty_page)))
       = [(1, ''active''), (2, ''sold''), (3, ''sold'')]
   \<and> listing_statuses example_after_delete
       = [(1, ''deleted''), (2, ''deleted''), (3, ''sold'')]
   \<and> map (\<lambda>row. (l_id (fst row), browse_mark_sold_shown (Some 7) (fst row)))
        (listings example_browse_page)
       = [(3, False), (2, False), (1, True)]
   \<and> listing_statuses (fst (handleWalletSuccess (Some 7) None
        (example_after_delete, handleMarkAsSold 1 example_browse_page)))
       = [(1, ''sold''), (2, ''deleted''), (3, ''sold'')]"
  by (simp add: listing_statuses_def delete_shown_def card_shown_def handleDeleteListing_def
      handleRequestPickup_def handleWalletSuccess_def handleMarkAsSold_def seller_update_def
      update_listings_def answer_def example_listings_def example_listing_def
      example_my_page_def empty_page_def example_browse_page_def example_after_delete_def
      fetchData_def select_listings_def browse_mark_sold_shown_def material_type_of_def
      unique_def Let_def)

lemma update_listings_status:
  "map l_status (update_listings wh (\<lambda>l. l\<lparr>l_status := s\<rparr>) ls)
     = map (\<lambda>l. if wh l then s else l_status l) ls"
  by (induction ls) (simp_all add: update_listings_def)

lemma update_listings_length: "length (update_listings wh st ls) = length ls"
  by (simp add: update_listings_def)

lemma update_listings_keeps_status:
  assumes "\<And>l. l_status (st l) = l_status l"
  shows "map l_status (update_listings wh st ls) = map l_status ls"
  using assms by (induction ls) (simp_all add: update_listings_def)

lemma seller_update_keeps_status:
  assumes "\<And>l. l_status (st l) = l_status l"
    and "seller_update user fault listing_id st ls = Inr ls'"
  shows "map l_status ls' = map l_status ls"
  using assms(2) update_listings_keeps_status [of st, OF assms(1)]
  by (auto simp add: seller_update_def dest!: answer_Inr split: option.splits)

lemma seller_update_sets_status:
  assumes "seller_update user fault listing_id (\<lambda>l. l\<lparr>l_status := s\<rparr>) ls = Inr ls'"
    and "i < length ls" and "l_status (ls ! i) = s"
  shows "length ls' = length ls \<and> l_status (ls' ! i) = s"
  using assms
  by (auto simp add: seller_update_def update_listings_def dest!: answer_Inr
      split: option.splits)

lemma edit_keeps_status:
  "map l_status (fst (edit_handleSubmit user now fault listing_id formData ls)) = map l_status ls"
proof (cases "seller_update user fault listing_id
    (\<lambda>l. l\<lparr>l_title := f_title formData, l_description := f_description formData,
           l_listed_price := f_listed_price formData, l_quantity := f_quantity formData,
           l_unit := f_unit formData, l_material_type_id := f_material_type_id formData,
           l_image_url := Some (f_image_url formData), l_updated_at := now\<rparr>) ls")
  case (Inl e)
  then show ?thesis by (simp add: edit_handleSubmit_def)
next
  case (Inr ls')
  then have "map l_status ls' = map l_status ls"
    by (intro seller_update_keeps_status [OF _ Inr]) simp
  with Inr show ?thesis by (simp add: edit_handleSubmit_def)
qed

lemma handleWalletSuccess_sold_stays:
  assumes "i < length ls" and "l_status (ls ! i) = ''sold''"
  shows "l_status (fst (handleWalletSuccess user fault (ls, st)) ! i) = ''sold''"
proof (cases "selectedListingId st")
  case None
  with assms show ?thesis by (simp add: handleWalletSuccess_def Let_def)
next
  case (Some sel)
  show ?thesis
  proof (cases "seller_update user fault sel (\<lambda>l. l\<lparr>l_status := ''sold''\<rparr>) ls")
    case (Inl e)
    with Some assms show ?thesis by (simp add: handleWalletSuccess_def Let_def)
  next
    case (Inr ls')
    from seller_update_sets_status [OF Inr assms] Some Inr show ?thesis
      by (simp add: handleWalletSuccess_def Let_def)
  qed
qed

lemma my_handleWalletSuccess_sold_stays:
  assumes "i < length ls" and "l_status (ls ! i) = ''sold''"
  shows "l_status (fst (my_handleWalletSuccess user fault (ls, st)) ! i) = ''sold''"
proof (cases "ml_selectedListingId st")
  case None
  with assms show ?thesis by (simp add: my_handleWalletSuccess_def Let_def)
next
  case (Some sel)
  show ?thesis
  proof (cases "seller_update user fault sel (\<lambda>l. l\<lparr>l_status := ''sold''\<rparr>) ls")
    case (Inl e)
    with Some assms show ?thesis by (simp add: my_handleWalletSuccess_def Let_def)
  next
    case (Inr ls')
    from seller_update_sets_status [OF Inr assms] Some Inr show ?thesis
      by (simp add: my_handleWalletSuccess_def Let_def)
  qed
qed

lemma handleDeleteListing_deleted_stays:
  assumes "i < length ls" and "l_status (ls ! i) = ''deleted''"
  shows "l_status (fst (handleDeleteListing user confirmed fault listing_id (ls, st)) ! i)
           = ''deleted''"
proof (cases "seller_update user fault listing_id (\<lambda>l. l\<lparr>l_status := ''deleted''\<rparr>) ls")
  case (Inl e)
  with assms show ?thesis by (simp add: handleDeleteListing_def Let_def)
next
  case (Inr ls')
  from seller_update_sets_status [OF Inr assms] Inr assms show ?thesis
    by (simp add: handleDeleteListing_def Let_def)
qed

text \<open>
  Claim C4, amended. Editing a listing changes no status. Marking as sold leaves a sold
  listing sold, and deleting leaves a deleted listing deleted. The pages offer ``Mark
  Sold'' only for a listing they hold as active (browse page) or as neither sold nor
  deleted (the seller's page, which offers Edit under the same condition), and the delete
  button for every listing they hold as not deleted, a sold one included. The statements
  themselves have no condition on the current status: with the requests going through,
  marking as sold makes the selected listing of the seller sold, deleting makes the
  seller's listing deleted, and \<^verbatim>\<open>handleRequestPickup\<close> makes the held listing
  \<^verbatim>\<open>pending_pickup\<close>, whatever the status was.
\<close>

theorem listing_status_steps:
  "map l_status (fst (edit_handleSubmit user now fault listing_id formData ls)) = map l_status ls
   \<and> (\<forall>i < length ls. l_status (ls ! i) = ''sold''
         \<longrightarrow> l_status (fst (handleWalletSuccess user fault (ls, st)) ! i) = ''sold''
           \<and> l_status (fst (my_handleWalletSuccess user fault (ls, mst)) ! i) = ''sold'')
   \<and> (\<forall>i < length ls. l_status (ls ! i) = ''deleted''
         \<longrightarrow> l_status (fst (handleDeleteListing user confirmed fault listing_id (ls, mst)) ! i)
             = ''deleted'')
   \<and> (browse_mark_sold_shown user l \<longrightarrow> l_status l = ''active'')
   \<and> (my_mark_sold_shown l \<or> edit_shown l
         \<longrightarrow> l_status l \<noteq> ''sold'' \<and> l_status l \<noteq> ''deleted'')
   \<and> (delete_shown l \<longleftrightarrow> l_status l \<noteq> ''deleted'')
   \<and> (\<forall>sel. selectedListingId st = Some sel
         \<longrightarrow> map l_status (fst (handleWalletSuccess (Some uid) None (ls, st)))
             = map (\<lambda>x. if l_id x = sel \<and> l_seller_id x = uid then ''sold'' else l_status x) ls)
   \<and> (\<forall>sel. ml_selectedListingId mst = Some sel
         \<longrightarrow> map l_status (fst (my_handleWalletSuccess (Some uid) None (ls, mst)))
             = map (\<lambda>x. if l_id x = sel \<and> l_seller_id x = uid then ''sold'' else l_status x) ls)
   \<and> map l_status (fst (handleDeleteListing (Some uid) True None listing_id (ls, mst)))
       = map (\<lambda>x. if l_id x = listing_id \<and> l_seller_id x = uid then ''deleted''
                   else l_status x) ls
   \<and> map l_status (fst (handleRequestPickup (Some uid) (Some held) None None ls))
       = map (\<lambda>x. if l_id x = l_id held then ''pending_pickup'' else l_status x) ls"
proof -
  have sold: "\<forall>i < length ls. l_status (ls ! i) = ''sold''
         \<longrightarrow> l_status (fst (handleWalletSuccess user fault (ls, st)) ! i) = ''sold''
           \<and> l_status (fst (my_handleWalletSuccess user fault (ls, mst)) ! i) = ''sold''"
    by (simp add: handleWalletSuccess_sold_stays my_handleWalletSuccess_sold_stays)
  have deleted: "\<forall>i < length ls. l_status (ls ! i) = ''deleted''
         \<longrightarrow> l_status (fst (handleDeleteListing user confirmed fault listing_id (ls, mst)) ! i)
             = ''deleted''"
    by (simp add: handleDeleteListing_deleted_stays)
  have browse: "browse_mark_sold_shown user l \<longrightarrow> l_status l = ''active''"
    by (simp add: browse_mark_sold_shown_def split: option.splits)
  have mine: "my_mark_sold_shown l \<or> edit_shown l
         \<longrightarrow> l_status l \<noteq> ''sold'' \<and> l_status l \<noteq> ''deleted''"
    by (auto simp add: my_mark_sold_shown_def edit_shown_def card_shown_def)
  have del_button: "delete_shown l \<longleftrightarrow> l_status l \<noteq> ''deleted''"
    by (simp add: delete_shown_def card_shown_def)
  have mark: "\<forall>sel. selectedListingId st = Some sel
         \<longrightarrow> map l_status (fst (handleWalletSuccess (Some uid) None (ls, st)))
             = map (\<lambda>x. if l_id x = sel \<and> l_seller_id x = uid then ''sold'' else l_status x) ls"
    by (simp add: handleWalletSuccess_def Let_def seller_update_def answer_def
        update_listings_status)
  have my_mark: "\<forall>sel. ml_selectedListingId mst = Some sel
         \<longrightarrow> map l_status (fst (my_handleWalletSuccess (Some uid) None (ls, mst)))
             = map (\<lambda>x. if l_id x = sel \<and> l_seller_id x = uid then ''sold'' else l_status x) ls"
    by (simp add: my_handleWalletSuccess_def Let_def seller_update_def answer_def
        update_listings_status)
  have del: "map l_status (fst (handleDeleteListing (Some uid) True None listing_id (ls, mst)))
       = map (\<lambda>x. if l_id x = listing_id \<and> l_seller_id x = uid then ''deleted''
                   else l_status x) ls"
    by (simp add: handleDeleteListing_def Let_def seller_update_def answer_def
        update_listings_status)
  have pickup: "map l_status (fst (handleRequestPickup (Some uid) (Some held) None None ls))
       = map (\<lambda>x. if l_id x = l_id held then ''pending_pickup'' else l_status x) ls"
    by (simp add: handleRequestPickup_def answer_def update_listings_status)
  show ?thesis
    by (intro conjI)
      (rule edit_keeps_status sold deleted browse mine del_button mark my_mark del pickup)+
qed

definition example_form :: form_data where
  "example_form = \<lparr>f_title = ''Copper wire, stripped'', f_description = Some ''clean'',
     f_listed_price = 120, f_quantity = 4, f_unit = ''kg'', f_material_type_id = 1,
     f_image_url = []\<rparr>"

theorem listing_status_steps_witness:
  "map l_status (fst (edit_handleSubmit (Some 8) 2000 None 3 example_form example_listings))
     = map l_status example_listings
   \<and> l_status (fst (handleWalletSuccess (Some 8) None
        (example_listings, handleMarkAsSold 3 empty_page)) ! 2) = ''sold''
   \<and> l_status (fst (handleDeleteListing (Some 8) True None 3
        (example_listings, example_my_page)) ! 1) = ''deleted''
   \<and> l_status (example_listing 1 7 ''active'' None) = ''active''
   \<and> map l_status (fst (handleDeleteListing (Some 8) True None 3
        (example_listings, example_my_page)))
     = map (\<lambda>x. if l_id x = 3 \<and> l_seller_id x = 8 then ''deleted'' else l_status x)
         example_listings"
proof -
  note inst = listing_status_steps [where user = "Some 8" and now = 2000 and fault = None
      and listing_id = 3 and formData = example_form and ls = example_listings
      and st = "handleMarkAsSold 3 empty_page" and mst = example_my_page
      and confirmed = True and l = "example_listing 1 7 ''active'' None" and uid = 8]
  have sold: "2 < length example_listings \<and> l_status (example_listings ! 2) = ''sold''"
    by (simp add: example_listings_def example_listing_def)
  have deleted: "1 < length example_listings \<and> l_status (example_listings ! 1) = ''deleted''"
    by (simp add: example_listings_def example_listing_def)
  have shown: "browse_mark_sold_shown (Some 7) (example_listing 1 7 ''active'' None)"
    by (simp add: browse_mark_sold_shown_def example_listing_def)
  note owner = listing_status_steps [where user = "Some 7"
      and l = "example_listing 1 7 ''active'' None"]
  from inst have edit: "map l_status (fst (edit_handleSubmit (Some 8) 2000 None 3 example_form
      example_listings)) = map l_status example_listings"
    by blast
  from inst sold have mark: "l_status (fst (handleWalletSuccess (Some 8) None
        (example_listings, handleMarkAsSold 3 empty_page)) ! 2) = ''sold''"
    by blast
  from inst deleted have del: "l_status (fst (handleDeleteListing (Some 8) True None 3
        (example_listings, example_my_page)) ! 1) = ''deleted''"
    by blast
  from owner shown have active: "l_status (example_listing 1 7 ''active'' None) = ''active''"
    by blast
  from inst have all: "map l_status (fst (handleDeleteListing (Some 8) True None 3
        (example_listings, example_my_page)))
     = map (\<lambda>x. if l_id x = 3 \<and> l_seller_id x = 8 then ''deleted'' else l_status x)
         example_listings"
    by blast
  from edit mark del active all show ?thesis by blast
qed

end
